theory Spec2Isabelle
  imports Main "HOL-Library.Sublist"
begin

section \<open>The deployment record (server/routes/deployments.js, deploymentSchema)\<close>

datatype status = Pending | Deploying | Deployed | Failed | RollingBack | RolledBack

datatype log_type = Info | Success | Error | Warning

text \<open>One element of the \<open>logs\<close> sub-array. The schema's field \<open>type\<close> is called
  \<open>ltype\<close> here; \<open>timestamp\<close> is the default \<open>Date.now\<close> taken when the entry is pushed.\<close>

record log_entry =
  message :: string
  ltype :: log_type
  timestamp :: nat

datatype json =
    JNull
  | JBool bool
  | JNumber int
  | JString string
  | JArray "json list"
  | JObject "(string \<times> json) list"

text \<open>What \<open>CloudService.getCostEstimate\<close> returns: the estimate object or \<open>{ error }\<close>.\<close>

datatype cost_estimate =
    Estimate (monthlyEstimate: string) (breakdown: "(string \<times> string) list") (currency: string)
  | EstimateError (error: string)

text \<open>The document. \<open>outputs\<close> has the schema default \<open>{}\<close>, so it is never absent; the
  fields without a default are optional. Times are milliseconds since the epoch.\<close>

record deployment =
  projectId :: string
  userId :: nat
  name :: string
  provider :: string
  terraformCode :: string
  status :: status
  outputs :: json
  logs :: "log_entry list"
  costEstimate :: "cost_estimate option"
  deploymentTime :: "int option"
  createdAt :: nat
  deployedAt :: "nat option"
  rolledBackAt :: "nat option"

section \<open>The environment: subprocesses, the file system, JSON.parse\<close>

text \<open>An awaited call returns, throws an \<open>Error\<close> with a message, or never settles.\<close>

datatype 'a outcome = Returns 'a | Throws string | Hangs

type_synonym path = "string list"

text \<open>The file system is the list of the paths that exist. File contents and the files
  terraform writes itself are not tracked.\<close>

type_synonym filesystem = "path list"

text \<open>\<open>execAsync e cmd cwd\<close> is the outcome of \<open>execAsync(cmd, { cwd })\<close> (its stdout when it
  resolves). The source passes no \<open>timeout\<close> option, so a subprocess that does not exit is
  \<open>Hangs\<close>. \<open>fs_fault e op p\<close> is the message with which the file-system call \<open>op\<close> on
  \<open>p\<close> rejects, if it does. \<open>JSON_parse e\<close> is \<open>JSON.parse\<close>, \<open>Inl\<close> the SyntaxError message.\<close>

record env =
  execAsync :: "string \<Rightarrow> path \<Rightarrow> string outcome"
  fs_fault :: "string \<Rightarrow> path \<Rightarrow> string option"
  JSON_parse :: "string \<Rightarrow> string + json"

type_synonym 'a io = "filesystem \<Rightarrow> 'a outcome \<times> filesystem"

definition io_return :: "'a \<Rightarrow> 'a io" where
  "io_return x fs = (Returns x, fs)"

definition io_throw :: "string \<Rightarrow> 'a io" where
  "io_throw m fs = (Throws m, fs)"

text \<open>Sequencing of two awaited calls: a throw or a hang of the first skips the second.\<close>

definition io_bind :: "'a io \<Rightarrow> ('a \<Rightarrow> 'b io) \<Rightarrow> 'b io" where
  "io_bind m f fs =
     (case m fs of
        (Returns x, fs') \<Rightarrow> f x fs'
      | (Throws msg, fs') \<Rightarrow> (Throws msg, fs')
      | (Hangs, fs') \<Rightarrow> (Hangs, fs'))"

text \<open>\<open>try { m } catch (error) { h error.message }\<close>: a hang is not caught.\<close>

definition io_catch :: "'a io \<Rightarrow> (string \<Rightarrow> 'a io) \<Rightarrow> 'a io" where
  "io_catch m h fs =
     (case m fs of
        (Throws msg, fs') \<Rightarrow> h msg fs'
      | r \<Rightarrow> r)"

definition exec_io :: "env \<Rightarrow> string \<Rightarrow> path \<Rightarrow> string io" where
  "exec_io e cmd cwd fs = (execAsync e cmd cwd, fs)"

definition parse_io :: "env \<Rightarrow> string \<Rightarrow> json io" where
  "parse_io e txt fs = (case JSON_parse e txt of Inl msg \<Rightarrow> (Throws msg, fs) | Inr v \<Rightarrow> (Returns v, fs))"

definition fs_mkdir :: "env \<Rightarrow> path \<Rightarrow> unit io" where
  "fs_mkdir e p fs =
     (case fs_fault e ''mkdir'' p of
        Some msg \<Rightarrow> (Throws msg, fs)
      | None \<Rightarrow> (Returns (), if p \<in> set fs then fs else p # fs))"

definition fs_writeFile :: "env \<Rightarrow> path \<Rightarrow> unit io" where
  "fs_writeFile e p fs =
     (case fs_fault e ''writeFile'' p of
        Some msg \<Rightarrow> (Throws msg, fs)
      | None \<Rightarrow> (Returns (), if p \<in> set fs then fs else p # fs))"

text \<open>\<open>fs.rm(dirPath, { recursive: true, force: true })\<close>: the directory and all below it.\<close>

definition fs_rm :: "env \<Rightarrow> path \<Rightarrow> unit io" where
  "fs_rm e p fs =
     (case fs_fault e ''rm'' p of
        Some msg \<Rightarrow> (Throws msg, fs)
      | None \<Rightarrow> (Returns (), filter (\<lambda>q. \<not> prefix p q) fs))"

section \<open>CloudService (the cloud service module)\<close>

definition terraformPath :: path where
  "terraformPath = [''terraform'']"

text \<open>\<open>pathExists\<close>: \<open>fs.access\<close> succeeds, and a failure becomes \<open>false\<close>.\<close>

definition pathExists :: "filesystem \<Rightarrow> path \<Rightarrow> bool" where
  "pathExists fs p = (p \<in> set fs)"

definition pathExists_io :: "path \<Rightarrow> bool io" where
  "pathExists_io p fs = (Returns (pathExists fs p), fs)"

definition cleanupDirectory :: "env \<Rightarrow> path \<Rightarrow> unit io" where
  "cleanupDirectory e dirPath fs = io_catch (fs_rm e dirPath) (\<lambda>msg. io_return ()) fs"

text \<open>The two generators write one file each; its text depends on the provider only.\<close>

definition generateProviderConfig :: "env \<Rightarrow> path \<Rightarrow> string \<Rightarrow> unit io" where
  "generateProviderConfig e projectPath prov fs = fs_writeFile e (projectPath @ [''providers.tf'']) fs"

definition generateVariablesFile :: "env \<Rightarrow> path \<Rightarrow> string \<Rightarrow> unit io" where
  "generateVariablesFile e projectPath prov fs = fs_writeFile e (projectPath @ [''variables.tf'']) fs"

datatype deploy_result =
  DeployResult (success: bool) (result_outputs: json) (planOutput: string) (applyOutput: string)

definition deployInfrastructure :: "env \<Rightarrow> string \<Rightarrow> string \<Rightarrow> string \<Rightarrow> deploy_result io" where
  "deployInfrastructure e pid code prov fs =
     io_catch
       (let projectPath = terraformPath @ [pid] in
        io_bind (fs_mkdir e projectPath) (\<lambda>_.
        io_bind (fs_writeFile e (projectPath @ [''main.tf''])) (\<lambda>_.
        io_bind (generateProviderConfig e projectPath prov) (\<lambda>_.
        io_bind (generateVariablesFile e projectPath prov) (\<lambda>_.
        io_bind (exec_io e ''terraform init'' projectPath) (\<lambda>_.
        io_bind (exec_io e ''terraform plan -out=tfplan'' projectPath) (\<lambda>plan.
        io_bind (exec_io e ''terraform apply -auto-approve tfplan'' projectPath) (\<lambda>apply.
        io_bind (exec_io e ''terraform output -json'' projectPath) (\<lambda>output.
        io_bind (parse_io e output) (\<lambda>outs.
        io_return (DeployResult True outs plan apply)))))))))))
       (\<lambda>msg. io_throw (''Deployment failed: '' @ msg)) fs"

datatype rollback_result =
  RollbackResult (rb_success: bool) (rb_message: string) (destroyOutput: string)

definition rollbackDeployment :: "env \<Rightarrow> string \<Rightarrow> rollback_result io" where
  "rollbackDeployment e pid fs =
     io_catch
       (let projectPath = terraformPath @ [pid] in
        io_bind (pathExists_io projectPath) (\<lambda>ex.
        if \<not> ex then io_throw ''Project path does not exist''
        else
          io_bind (exec_io e ''terraform destroy -auto-approve'' projectPath) (\<lambda>out.
          io_return (RollbackResult True ''Infrastructure rolled back successfully'' out))))
       (\<lambda>msg. io_throw (''Rollback failed: '' @ msg)) fs"

definition mock_estimate :: cost_estimate where
  "mock_estimate = Estimate ''$150.00''
     [(''EC2 Instances'', ''$80.00''), (''RDS Database'', ''$40.00''),
      (''S3 Storage'', ''$20.00''), (''Load Balancer'', ''$10.00'')]
     ''USD''"

definition getCostEstimate :: "env \<Rightarrow> string \<Rightarrow> cost_estimate io" where
  "getCostEstimate e pid fs =
     io_catch
       (let projectPath = terraformPath @ [pid] in
        io_bind (pathExists_io projectPath) (\<lambda>ex.
        if \<not> ex then io_return (EstimateError ''Project not found'')
        else io_return mock_estimate))
       (\<lambda>msg. io_return (EstimateError msg)) fs"

datatype validation =
  Validation (valid: bool) (v_message: "string option") (v_error: "string option")

definition validateInfrastructure :: "env \<Rightarrow> string \<Rightarrow> string \<Rightarrow> validation io" where
  "validateInfrastructure e code prov fs =
     io_catch
       (let tempPath = terraformPath @ [''temp-validation''] in
        io_bind (fs_mkdir e tempPath) (\<lambda>_.
        io_bind (fs_writeFile e (tempPath @ [''main.tf''])) (\<lambda>_.
        io_bind (generateProviderConfig e tempPath prov) (\<lambda>_.
        io_bind (exec_io e ''terraform init'' tempPath) (\<lambda>_.
        io_bind (exec_io e ''terraform validate'' tempPath) (\<lambda>validateOutput.
        io_bind (cleanupDirectory e tempPath) (\<lambda>_.
        io_return (Validation True (Some ''Terraform configuration is valid'') None))))))))
       (\<lambda>msg. io_return (Validation False None (Some msg))) fs"

section \<open>The document store\<close>

text \<open>The collection: a deployment's \<open>_id\<close> is its index, a deleted document leaves
  \<open>None\<close> behind, so that an id is never given twice.\<close>

type_synonym collection = "deployment option list"

definition findById :: "collection \<Rightarrow> nat \<Rightarrow> deployment option" where
  "findById st i = (if i < length st then st ! i else None)"

text \<open>\<open>Deployment.findOne(filter)\<close>: the first document, in insertion order, that matches.\<close>

fun findOne_from :: "nat \<Rightarrow> (deployment \<Rightarrow> bool) \<Rightarrow> collection \<Rightarrow> nat option" where
  "findOne_from n P [] = None"
| "findOne_from n P (x # xs) =
     (case x of
        Some d \<Rightarrow> if P d then Some n else findOne_from (Suc n) P xs
      | None \<Rightarrow> findOne_from (Suc n) P xs)"

definition findOne :: "(deployment \<Rightarrow> bool) \<Rightarrow> collection \<Rightarrow> nat option" where
  "findOne P st = findOne_from 0 P st"

text \<open>\<open>deployment.save()\<close> of a loaded document sends the paths the caller has modified:
  \<open>f\<close> is that modification. It rejects when the document is no longer in the
  collection. Other database faults are not modelled.\<close>

definition save :: "collection \<Rightarrow> nat \<Rightarrow> (deployment \<Rightarrow> deployment) \<Rightarrow> collection option" where
  "save st i f = (case findById st i of None \<Rightarrow> None | Some d \<Rightarrow> Some (st[i := Some (f d)]))"

definition not_found_message :: string where
  "not_found_message = ''No document found for query''"

section \<open>Requests, responses, pending continuations\<close>

datatype response =
    Created nat
  | RollbackInitiated nat
  | Deleted
  | BadRequest string "string option"
  | NotFound string
  | ServerError string string

text \<open>What the last \<open>deployment.save()\<close> of a background job writes.\<close>

datatype job_update =
    SetDeployed json nat int "cost_estimate option" log_entry
  | SetRolledBack nat log_entry
  | SetFailed log_entry

fun apply_update :: "job_update \<Rightarrow> deployment \<Rightarrow> deployment" where
  "apply_update (SetDeployed outs t secs ce entry) d =
     d\<lparr>status := Deployed, outputs := outs, deployedAt := Some t, deploymentTime := Some secs,
       logs := logs d @ [entry],
       costEstimate := (case ce of None \<Rightarrow> costEstimate d | Some c \<Rightarrow> Some c)\<rparr>"
| "apply_update (SetRolledBack t entry) d =
     d\<lparr>status := RolledBack, rolledBackAt := Some t, logs := logs d @ [entry]\<rparr>"
| "apply_update (SetFailed entry) d =
     d\<lparr>status := Failed, logs := logs d @ [entry]\<rparr>"

text \<open>A task is a handler or a background job suspended at an \<open>await\<close>; its arguments are
  the local variables the continuation needs (the loaded document, \<open>startTime\<close>, the log
  entry already pushed on the local copy).\<close>

datatype task =
    RollbackFindOne nat string
  | RollbackSave nat
  | DeployFindById nat
  | DeploySave nat deployment nat log_entry
  | DeployInfra nat deployment nat
  | RollbackJobFindById nat
  | RollbackJobSave nat deployment log_entry
  | RollbackInfra nat deployment
  | FinalSave nat job_update
  | Hung nat
  | Finished

record sys =
  store :: collection
  files :: filesystem
  clock :: nat
  tasks :: "task list"
  responses :: "response list"

definition respond :: "response \<Rightarrow> sys \<Rightarrow> sys" where
  "respond r s = s\<lparr>responses := responses s @ [r]\<rparr>"

definition spawn :: "task \<Rightarrow> sys \<Rightarrow> sys" where
  "spawn t s = s\<lparr>tasks := tasks s @ [t]\<rparr>"

definition log_now :: "sys \<Rightarrow> string \<Rightarrow> log_type \<Rightarrow> log_entry" where
  "log_now s m l = \<lparr>message = m, ltype = l, timestamp = clock s\<rparr>"

text \<open>\<open>Math.round(ms / 1000)\<close>: the nearest integer, a half rounded up.\<close>

definition Math_round_seconds :: "int \<Rightarrow> int" where
  "Math_round_seconds ms = (ms + 500) div 1000"

definition digit :: "nat \<Rightarrow> char" where
  "digit n = ''0123456789'' ! (n mod 10)"

text \<open>The decimal digits of a number, as a template literal prints it.\<close>

function decimal :: "nat \<Rightarrow> string" where
  "decimal n = (if n < 10 then [digit n] else decimal (n div 10) @ [digit n])"
  by pat_completeness auto
termination
  by (relation "measure id") auto

section \<open>POST / (create a deployment)\<close>

record create_body =
  body_projectId :: string
  body_projectName :: string
  body_terraformCode :: string
  body_provider :: string

text \<open>The handler touches the collection once, in its insert, so it is one step. An
  absent or empty body field is the empty string; \<open>oid\<close> is the fresh ObjectId used when
  the body has no project id. Mongoose validates the \<open>provider\<close> enum on save.\<close>

definition post_deployment :: "env \<Rightarrow> nat \<Rightarrow> create_body \<Rightarrow> string \<Rightarrow> sys \<Rightarrow> sys" where
  "post_deployment e u b oid s =
     (if body_terraformCode b = [] \<or> body_provider b = []
      then respond (BadRequest ''Terraform code and provider are required'' None) s
      else case validateInfrastructure e (body_terraformCode b) (body_provider b) (files s) of
          (Hangs, fs) \<Rightarrow> s\<lparr>files := fs\<rparr>
        | (Throws msg, fs) \<Rightarrow> respond (ServerError ''Failed to create deployment'' msg) (s\<lparr>files := fs\<rparr>)
        | (Returns v, fs) \<Rightarrow>
            if \<not> valid v
            then respond (BadRequest ''Invalid Terraform configuration'' (v_error v)) (s\<lparr>files := fs\<rparr>)
            else if body_provider b \<notin> {''aws'', ''gcp'', ''azure''}
            then respond (ServerError ''Failed to create deployment'' ''Deployment validation failed'')
                   (s\<lparr>files := fs\<rparr>)
            else
              let d = \<lparr>projectId = (if body_projectId b = [] then oid else body_projectId b),
                       userId = u,
                       name = (if body_projectName b = [] then ''Deployment '' @ decimal (clock s)
                               else body_projectName b),
                       provider = body_provider b,
                       terraformCode = body_terraformCode b,
                       status = Pending,
                       outputs = JObject [],
                       logs = [],
                       costEstimate = None,
                       deploymentTime = None,
                       createdAt = clock s,
                       deployedAt = None,
                       rolledBackAt = None\<rparr>;
                  i = length (store s)
              in respond (Created i)
                   (spawn (DeployFindById i) (s\<lparr>files := fs, store := store s @ [Some d]\<rparr>)))"

section \<open>POST /rollback\<close>

text \<open>The synchronous part up to \<open>await Deployment.findOne\<close>.\<close>

definition post_rollback :: "nat \<Rightarrow> string \<Rightarrow> sys \<Rightarrow> sys" where
  "post_rollback u pid s =
     (if pid = [] then respond (BadRequest ''Project ID is required'' None) s
      else spawn (RollbackFindOne u pid) s)"

text \<open>The query runs, then the code up to \<open>await deployment.save()\<close>.\<close>

definition rollback_findOne :: "nat \<Rightarrow> string \<Rightarrow> sys \<Rightarrow> task \<times> sys" where
  "rollback_findOne u pid s =
     (case findOne (\<lambda>d. projectId d = pid \<and> userId d = u \<and> status d = Deployed) (store s) of
        None \<Rightarrow> (Finished, respond (NotFound ''No active deployment found for rollback'') s)
      | Some i \<Rightarrow> (RollbackSave i, s))"

text \<open>The save runs, then \<open>setImmediate\<close> schedules \<open>processRollback\<close> and the response goes out.\<close>

definition rollback_save :: "nat \<Rightarrow> sys \<Rightarrow> task \<times> sys" where
  "rollback_save i s =
     (case save (store s) i (\<lambda>d. d\<lparr>status := RollingBack\<rparr>) of
        None \<Rightarrow> (Finished, respond (ServerError ''Failed to initiate rollback'' not_found_message) s)
      | Some st \<Rightarrow>
          (Finished, respond (RollbackInitiated i) (spawn (RollbackJobFindById i) (s\<lparr>store := st\<rparr>))))"

section \<open>DELETE /:id\<close>

text \<open>\<open>Deployment.findOneAndDelete({ _id, userId })\<close>: one atomic database operation.\<close>

definition delete_deployment :: "nat \<Rightarrow> nat \<Rightarrow> sys \<Rightarrow> sys" where
  "delete_deployment u i s =
     (case findById (store s) i of
        None \<Rightarrow> respond (NotFound ''Deployment not found'') s
      | Some d \<Rightarrow>
          if userId d = u
          then respond Deleted (s\<lparr>store := (store s)[i := None]\<rparr>)
          else respond (NotFound ''Deployment not found'') s)"

section \<open>processDeployment (background job)\<close>

text \<open>\<open>findById\<close> has answered: \<open>startTime\<close> is read, the status and the first log entry are
  set on the local copy, and \<open>save\<close> is called.\<close>

definition processDeployment_findById :: "nat \<Rightarrow> sys \<Rightarrow> task \<times> sys" where
  "processDeployment_findById i s =
     (case findById (store s) i of
        None \<Rightarrow> (Finished, s)
      | Some d \<Rightarrow> (DeploySave i d (clock s) (log_now s ''Starting deployment process...'' Info), s))"

text \<open>The save runs; a rejection is caught by the job's \<open>catch\<close>. Then
  \<open>deployInfrastructure\<close> is called.\<close>

definition processDeployment_save :: "nat \<Rightarrow> deployment \<Rightarrow> nat \<Rightarrow> log_entry \<Rightarrow> sys \<Rightarrow> task \<times> sys" where
  "processDeployment_save i d startTime entry s =
     (case save (store s) i (\<lambda>x. x\<lparr>status := Deploying, logs := logs x @ [entry]\<rparr>) of
        None \<Rightarrow>
          (FinalSave i (SetFailed (log_now s (''Deployment failed: '' @ not_found_message) Error)), s)
      | Some st \<Rightarrow> (DeployInfra i d startTime, s\<lparr>store := st\<rparr>))"

text \<open>\<open>deployInfrastructure\<close> has settled. On success the fields are set on the local copy
  and the cost estimate is fetched (a throw of it is only logged); otherwise the \<open>catch\<close>
  sets \<open>failed\<close>. Then the last \<open>save\<close> is called. A call that never settles leaves the
  job suspended for ever.\<close>

definition processDeployment_deploy :: "env \<Rightarrow> nat \<Rightarrow> deployment \<Rightarrow> nat \<Rightarrow> sys \<Rightarrow> task \<times> sys" where
  "processDeployment_deploy e i d startTime s =
     (case deployInfrastructure e (projectId d) (terraformCode d) (provider d) (files s) of
        (Hangs, fs) \<Rightarrow> (Hung i, s\<lparr>files := fs\<rparr>)
      | (Throws msg, fs) \<Rightarrow>
          (FinalSave i (SetFailed (log_now s (''Deployment failed: '' @ msg) Error)), s\<lparr>files := fs\<rparr>)
      | (Returns r, fs) \<Rightarrow>
          if success r
          then
            let secs = Math_round_seconds (int (clock s) - int startTime);
                entry = log_now s ''Deployment completed successfully'' Success
            in (case getCostEstimate e (projectId d) fs of
                  (Returns ce, fs') \<Rightarrow>
                    (FinalSave i (SetDeployed (result_outputs r) (clock s) secs (Some ce) entry),
                     s\<lparr>files := fs'\<rparr>)
                | (Throws msg, fs') \<Rightarrow>
                    (FinalSave i (SetDeployed (result_outputs r) (clock s) secs None entry),
                     s\<lparr>files := fs'\<rparr>)
                | (Hangs, fs') \<Rightarrow> (Hung i, s\<lparr>files := fs'\<rparr>))
          else
            (FinalSave i (SetFailed (log_now s (''Deployment failed: '' @ ''Deployment failed'') Error)),
             s\<lparr>files := fs\<rparr>))"

text \<open>The last \<open>await deployment.save()\<close> of either job. It stands outside the \<open>try\<close>: when
  it rejects, the job ends with nothing written.\<close>

definition final_save :: "nat \<Rightarrow> job_update \<Rightarrow> sys \<Rightarrow> task \<times> sys" where
  "final_save i upd s =
     (case save (store s) i (apply_update upd) of
        None \<Rightarrow> (Finished, s)
      | Some st \<Rightarrow> (Finished, s\<lparr>store := st\<rparr>))"

section \<open>processRollback (background job)\<close>

definition processRollback_findById :: "nat \<Rightarrow> sys \<Rightarrow> task \<times> sys" where
  "processRollback_findById i s =
     (case findById (store s) i of
        None \<Rightarrow> (Finished, s)
      | Some d \<Rightarrow> (RollbackJobSave i d (log_now s ''Starting rollback process...'' Info), s))"

definition processRollback_save :: "nat \<Rightarrow> deployment \<Rightarrow> log_entry \<Rightarrow> sys \<Rightarrow> task \<times> sys" where
  "processRollback_save i d entry s =
     (case save (store s) i (\<lambda>x. x\<lparr>logs := logs x @ [entry]\<rparr>) of
        None \<Rightarrow>
          (FinalSave i (SetFailed (log_now s (''Rollback failed: '' @ not_found_message) Error)), s)
      | Some st \<Rightarrow> (RollbackInfra i d, s\<lparr>store := st\<rparr>))"

definition processRollback_destroy :: "env \<Rightarrow> nat \<Rightarrow> deployment \<Rightarrow> sys \<Rightarrow> task \<times> sys" where
  "processRollback_destroy e i d s =
     (case rollbackDeployment e (projectId d) (files s) of
        (Hangs, fs) \<Rightarrow> (Hung i, s\<lparr>files := fs\<rparr>)
      | (Throws msg, fs) \<Rightarrow>
          (FinalSave i (SetFailed (log_now s (''Rollback failed: '' @ msg) Error)), s\<lparr>files := fs\<rparr>)
      | (Returns r, fs) \<Rightarrow>
          if rb_success r
          then (FinalSave i (SetRolledBack (clock s)
                  (log_now s ''Rollback completed successfully'' Success)), s\<lparr>files := fs\<rparr>)
          else
            (FinalSave i (SetFailed (log_now s
               (''Rollback failed: '' @ (if rb_message r = [] then ''Rollback failed'' else rb_message r))
               Error)),
             s\<lparr>files := fs\<rparr>))"

section \<open>The event loop\<close>

text \<open>\<open>resume e t s\<close> runs the suspended task \<open>t\<close> from its \<open>await\<close> to the next one;
  \<open>e\<close> decides the external calls made on the way.\<close>

fun resume :: "env \<Rightarrow> task \<Rightarrow> sys \<Rightarrow> task \<times> sys" where
  "resume e (RollbackFindOne u pid) s = rollback_findOne u pid s"
| "resume e (RollbackSave i) s = rollback_save i s"
| "resume e (DeployFindById i) s = processDeployment_findById i s"
| "resume e (DeploySave i d startTime entry) s = processDeployment_save i d startTime entry s"
| "resume e (DeployInfra i d startTime) s = processDeployment_deploy e i d startTime s"
| "resume e (RollbackJobFindById i) s = processRollback_findById i s"
| "resume e (RollbackJobSave i d entry) s = processRollback_save i d entry s"
| "resume e (RollbackInfra i d) s = processRollback_destroy e i d s"
| "resume e (FinalSave i upd) s = final_save i upd s"
| "resume e (Hung i) s = (Hung i, s)"
| "resume e Finished s = (Finished, s)"

text \<open>A job run without interruption, from its first \<open>await\<close> to its end: the task it
  stops in (\<open>Finished\<close>, or \<open>Hung\<close> when an external call never settles) and the state.\<close>

definition run_job :: "env \<Rightarrow> task \<Rightarrow> sys \<Rightarrow> task \<times> sys" where
  "run_job e t s =
     (case resume e t s of (t1, s1) \<Rightarrow>
      case resume e t1 s1 of (t2, s2) \<Rightarrow>
      case resume e t2 s2 of (t3, s3) \<Rightarrow>
      resume e t3 s3)"

definition processDeployment :: "env \<Rightarrow> nat \<Rightarrow> sys \<Rightarrow> task \<times> sys" where
  "processDeployment e i s = run_job e (DeployFindById i) s"

definition processRollback :: "env \<Rightarrow> nat \<Rightarrow> sys \<Rightarrow> task \<times> sys" where
  "processRollback e i s = run_job e (RollbackJobFindById i) s"

text \<open>What happens to the system: a request arrives, a suspended task is resumed, or the
  wall clock that \<open>Date.now()\<close> reads changes. \<open>Clock t\<close> makes it read \<open>t\<close>, which may lie
  before the previous reading (the wall clock can be set back).\<close>

datatype event =
    PostDeployment env nat create_body string
  | PostRollback nat string
  | DeleteDeployment nat nat
  | Resume nat env
  | Clock nat

fun step :: "event \<Rightarrow> sys \<Rightarrow> sys" where
  "step (PostDeployment e u b oid) s = post_deployment e u b oid s"
| "step (PostRollback u pid) s = post_rollback u pid s"
| "step (DeleteDeployment u i) s = delete_deployment u i s"
| "step (Resume k e) s =
     (if k < length (tasks s)
      then (case resume e (tasks s ! k) s of (t, s') \<Rightarrow> s'\<lparr>tasks := (tasks s')[k := t]\<rparr>)
      else s)"
| "step (Clock t) s = s\<lparr>clock := t\<rparr>"

fun run :: "event list \<Rightarrow> sys \<Rightarrow> sys" where
  "run [] s = s"
| "run (ev # evs) s = run evs (step ev s)"

text \<open>The states after each event of a run, the first one included.\<close>

fun trace :: "event list \<Rightarrow> sys \<Rightarrow> sys list" where
  "trace [] s = [s]"
| "trace (ev # evs) s = s # trace evs (step ev s)"

definition initial :: "filesystem \<Rightarrow> nat \<Rightarrow> sys" where
  "initial fs t = \<lparr>store = [], files = fs, clock = t, tasks = [], responses = []\<rparr>"

definition status_of :: "sys \<Rightarrow> nat \<Rightarrow> status option" where
  "status_of s i = map_option status (findById (store s) i)"

text \<open>The statuses a deployment id goes through in a run, repetitions dropped.\<close>

definition status_history :: "event list \<Rightarrow> sys \<Rightarrow> nat \<Rightarrow> status option list" where
  "status_history evs s i = remdups_adj (map (\<lambda>x. status_of x i) (trace evs s))"

text \<open>The jobs in flight for a deployment id: the background tasks not yet finished.\<close>

fun job_of :: "task \<Rightarrow> nat option" where
  "job_of (DeployFindById i) = Some i"
| "job_of (DeploySave i d startTime entry) = Some i"
| "job_of (DeployInfra i d startTime) = Some i"
| "job_of (RollbackJobFindById i) = Some i"
| "job_of (RollbackJobSave i d entry) = Some i"
| "job_of (RollbackInfra i d) = Some i"
| "job_of (FinalSave i upd) = Some i"
| "job_of (Hung i) = Some i"
| "job_of _ = None"

definition active_jobs :: "sys \<Rightarrow> nat \<Rightarrow> nat" where
  "active_jobs s i = length (filter (\<lambda>t. job_of t = Some i) (tasks s))"

section \<open>Invariants of the event loop\<close>

text \<open>A document in \<open>deployed\<close> has \<open>deployedAt\<close> and \<open>deploymentTime\<close> set. Nothing is
  said of the sign of \<open>deploymentTime\<close>: it is the difference of two readings of the wall
  clock.\<close>

definition deployed_fields_set :: "deployment \<Rightarrow> bool" where
  "deployed_fields_set d = (deployedAt d \<noteq> None \<and> deploymentTime d \<noteq> None)"

definition doc_ok :: "deployment option \<Rightarrow> bool" where
  "doc_ok x = (case x of None \<Rightarrow> True | Some d \<Rightarrow> status d \<noteq> Deployed \<or> deployed_fields_set d)"

definition sys_inv :: "sys \<Rightarrow> bool" where
  "sys_inv s = list_all doc_ok (store s)"

text \<open>A deployment a rollback handler or job works on has been deployed: its id is in the
  collection, and the document, unless deleted, has \<open>deployedAt\<close> set.\<close>

definition was_deployed :: "collection \<Rightarrow> nat \<Rightarrow> bool" where
  "was_deployed st i =
     (i < length st \<and> (case st ! i of None \<Rightarrow> True | Some d \<Rightarrow> deployedAt d \<noteq> None))"

fun rollback_task_ok :: "collection \<Rightarrow> task \<Rightarrow> bool" where
  "rollback_task_ok st (RollbackSave i) = was_deployed st i"
| "rollback_task_ok st (RollbackJobFindById i) = was_deployed st i"
| "rollback_task_ok st (RollbackJobSave i d entry) = was_deployed st i"
| "rollback_task_ok st (RollbackInfra i d) = was_deployed st i"
| "rollback_task_ok st (FinalSave i (SetRolledBack t entry)) = was_deployed st i"
| "rollback_task_ok st _ = True"

definition rollback_doc_ok :: "deployment option \<Rightarrow> bool" where
  "rollback_doc_ok x =
     (case x of
        None \<Rightarrow> True
      | Some d \<Rightarrow> (status d \<noteq> RollingBack \<and> status d \<noteq> RolledBack) \<or> deployedAt d \<noteq> None)"

definition rollback_inv :: "sys \<Rightarrow> bool" where
  "rollback_inv s =
     (sys_inv s \<and> list_all (rollback_task_ok (store s)) (tasks s) \<and> list_all rollback_doc_ok (store s))"

text \<open>How the collection changes: ids are never reused, and a document that has
  \<open>deployedAt\<close> set keeps it.\<close>

definition evolves :: "collection \<Rightarrow> collection \<Rightarrow> bool" where
  "evolves st st' =
     (length st \<le> length st' \<and>
      (\<forall>i < length st. case st' ! i of
           None \<Rightarrow> True
         | Some d' \<Rightarrow> (case st ! i of
               None \<Rightarrow> False
             | Some d \<Rightarrow> deployedAt d = None \<or> deployedAt d' \<noteq> None)))"

section \<open>Concrete environments and runs\<close>

text \<open>A backend on which every command succeeds; \<open>terraform output -json\<close> prints \<open>{}\<close>.\<close>

definition env_ok :: env where
  "env_ok =
     \<lparr>execAsync = (\<lambda>cmd cwd. Returns (if cmd = ''terraform output -json'' then ''{}'' else ''ok'')),
      fs_fault = (\<lambda>op p. None),
      JSON_parse = (\<lambda>txt. if txt = ''{}'' then Inr (JObject []) else Inl ''Unexpected token'')\<rparr>"

text \<open>The same backend with one command's outcome replaced.\<close>

definition env_with :: "string \<Rightarrow> string outcome \<Rightarrow> env" where
  "env_with cmd r = env_ok\<lparr>execAsync := (\<lambda>c cwd. if c = cmd then r else execAsync env_ok c cwd)\<rparr>"

definition body0 :: create_body where
  "body0 = \<lparr>body_projectId = ''507f1f77bcf86cd799439011'', body_projectName = ''demo'',
     body_terraformCode = ''resource'', body_provider = ''aws''\<rparr>"

definition env_invalid :: env where
  "env_invalid = env_with ''terraform validate'' (Throws ''Command failed: terraform validate'')"

definition env_unparsable :: env where
  "env_unparsable = env_with ''terraform output -json'' (Returns ''oops'')"

definition env_apply_hangs :: env where
  "env_apply_hangs = env_with ''terraform apply -auto-approve tfplan'' Hangs"

definition env_apply_fails :: env where
  "env_apply_fails =
     env_with ''terraform apply -auto-approve tfplan''
       (Throws ''Command failed: terraform apply -auto-approve tfplan'')"

text \<open>User 7 creates a deployment of project \<open>507f1f77bcf86cd799439011\<close> (project ids are
  ObjectId strings; the cast of a malformed id is not modelled). The job is at its first
  save, then runs to \<open>deployed\<close>.\<close>

definition deploying_events :: "event list" where
  "deploying_events =
     [PostDeployment env_ok 7 body0 ''507f191e810c19729de860ea'', Clock 2600,
      Resume 0 env_ok, Resume 0 env_ok]"

definition deploy_events :: "event list" where
  "deploy_events = deploying_events @ [Clock 5000, Resume 0 env_ok, Resume 0 env_ok]"

text \<open>Two rollback requests for the project arrive; both queries run before either save.
  Tasks 1 and 2 are the two handlers, tasks 3 and 4 the jobs they start.\<close>

definition race_events :: "event list" where
  "race_events = deploy_events @
     [PostRollback 7 ''507f1f77bcf86cd799439011'', PostRollback 7 ''507f1f77bcf86cd799439011'',
      Resume 1 env_ok, Resume 2 env_ok, Resume 1 env_ok, Resume 2 env_ok]"

text \<open>The two jobs then run side by side: the destroy of job 4 fails on the state lock
  job 3 holds, and the destroy of job 3 succeeds later.\<close>

definition race_jobs_events :: "event list" where
  "race_jobs_events = race_events @
     [Resume 3 env_ok, Resume 4 env_ok, Resume 3 env_ok, Resume 4 env_ok,
      Resume 4 (env_with ''terraform destroy -auto-approve'' (Throws ''Error acquiring the state lock'')),
      Resume 4 env_ok, Resume 3 env_ok, Resume 3 env_ok]"

text \<open>The other order: the destroy of job 3 succeeds and job 3 ends first; then the
  destroy of job 4 fails and job 4 ends.\<close>

definition race_jobs_events_rev :: "event list" where
  "race_jobs_events_rev = race_events @
     [Resume 3 env_ok, Resume 4 env_ok, Resume 3 env_ok, Resume 4 env_ok,
      Resume 3 env_ok, Resume 3 env_ok,
      Resume 4 (env_with ''terraform destroy -auto-approve'' (Throws ''Error acquiring the state lock'')),
      Resume 4 env_ok]"

text \<open>One rollback request, handled up to the start of its job (task 2); then a second
  request after the first was answered.\<close>

definition rolling_back_events :: "event list" where
  "rolling_back_events = deploy_events @ [PostRollback 7 ''507f1f77bcf86cd799439011'', Resume 1 env_ok, Resume 1 env_ok]"

definition sequential_events :: "event list" where
  "sequential_events = rolling_back_events @ [PostRollback 7 ''507f1f77bcf86cd799439011'', Resume 3 env_ok]"

text \<open>The documents and files these runs produce.\<close>

definition doc0 :: deployment where
  "doc0 = \<lparr>projectId = ''507f1f77bcf86cd799439011'', userId = 7, name = ''demo'', provider = ''aws'',
     terraformCode = ''resource'', status = Pending, outputs = JObject [], logs = [],
     costEstimate = None, deploymentTime = None, createdAt = 1000, deployedAt = None,
     rolledBackAt = None\<rparr>"

definition start_entry :: log_entry where
  "start_entry = \<lparr>message = ''Starting deployment process...'', ltype = Info, timestamp = 2600\<rparr>"

definition doc_deployed :: deployment where
  "doc_deployed = doc0\<lparr>status := Deployed, outputs := JObject [],
     logs := [start_entry,
              \<lparr>message = ''Deployment completed successfully'', ltype = Success, timestamp = 5000\<rparr>],
     costEstimate := Some mock_estimate, deploymentTime := Some 2, deployedAt := Some 5000\<rparr>"

definition files_deployed :: filesystem where
  "files_deployed = [[''terraform'', ''507f1f77bcf86cd799439011'', ''variables.tf''], [''terraform'', ''507f1f77bcf86cd799439011'', ''providers.tf''],
     [''terraform'', ''507f1f77bcf86cd799439011'', ''main.tf''], [''terraform'', ''507f1f77bcf86cd799439011'']]"

text \<open>The job reads \<open>startTime\<close> at 5000; the wall clock is set back to 3000 before
  \<open>deployInfrastructure\<close> returns.\<close>

definition clock_back_events :: "event list" where
  "clock_back_events =
     [PostDeployment env_ok 7 body0 ''507f191e810c19729de860ea'', Clock 5000,
      Resume 0 env_ok, Resume 0 env_ok, Clock 3000, Resume 0 env_ok, Resume 0 env_ok]"

text \<open>The deployment job hangs in its apply; an hour passes.\<close>

definition hang_events :: "event list" where
  "hang_events = deploying_events @ [Resume 0 env_apply_hangs, Clock 3602600, Resume 0 env_ok]"


section \<open>Evaluation and structural lemmas\<close>

lemmas io_defs = io_return_def io_throw_def io_bind_def io_catch_def exec_io_def parse_io_def
  fs_mkdir_def fs_writeFile_def fs_rm_def cleanupDirectory_def generateProviderConfig_def
  generateVariablesFile_def pathExists_io_def Let_def

lemmas job_defs = processDeployment_findById_def processDeployment_save_def
  processDeployment_deploy_def final_save_def processRollback_findById_def
  processRollback_save_def processRollback_destroy_def log_now_def

lemmas handler_defs = post_deployment_def post_rollback_def rollback_findOne_def
  rollback_save_def delete_deployment_def respond_def spawn_def

lemmas eval_defs = job_defs handler_defs io_defs save_def findById_def findOne_def
  not_found_message_def Math_round_seconds_def deployInfrastructure_def rollbackDeployment_def
  getCostEstimate_def validateInfrastructure_def pathExists_def terraformPath_def
  mock_estimate_def env_ok_def env_with_def body0_def initial_def

lemma run_append: "run (xs @ ys) s = run ys (run xs s)"
  by (induction xs arbitrary: s) auto

lemma findById_length: "findById st i = Some d \<Longrightarrow> i < length st"
  by (simp add: findById_def split: if_splits)

lemma findById_update_same: "i < length st \<Longrightarrow> findById (st[i := x]) i = x"
  by (simp add: findById_def)

lemma findById_update_other: "j \<noteq> i \<Longrightarrow> findById (st[i := x]) j = findById st j"
  by (simp add: findById_def)

lemma save_found: "findById st i = Some d \<Longrightarrow> save st i f = Some (st[i := Some (f d)])"
  by (simp add: save_def)

lemma save_missing: "findById st i = None \<Longrightarrow> save st i f = None"
  by (simp add: save_def)

subsection \<open>The states of the concrete runs\<close>

lemma created_state:
  "step (PostDeployment env_ok 7 body0 ''507f191e810c19729de860ea'') (initial [] 1000) =
     \<lparr>store = [Some doc0], files = [], clock = 1000, tasks = [DeployFindById 0],
      responses = [Created 0]\<rparr>"
  by (simp add: eval_defs doc0_def)

lemma deploying_state:
  "run deploying_events (initial [] 1000) =
     \<lparr>store = [Some (doc0\<lparr>status := Deploying,
         logs := [\<lparr>message = ''Starting deployment process...'', ltype = Info, timestamp = 2600\<rparr>]\<rparr>)],
      files = [], clock = 2600, tasks = [DeployInfra 0 doc0 2600], responses = [Created 0]\<rparr>"
  by (simp add: deploying_events_def eval_defs doc0_def)

lemma late_state:
  "run (deploying_events @ [Clock 5000]) (initial [] 1000) =
     \<lparr>store = [Some (doc0\<lparr>status := Deploying, logs := [start_entry]\<rparr>)],
      files = [], clock = 5000, tasks = [DeployInfra 0 doc0 2600], responses = [Created 0]\<rparr>"
  unfolding run_append deploying_state by (simp add: start_entry_def)

lemma deploy_ok:
  "deployInfrastructure env_ok ''507f1f77bcf86cd799439011'' ''resource'' ''aws'' []
     = (Returns (DeployResult True (JObject []) ''ok'' ''ok''), files_deployed)"
  by (simp add: eval_defs files_deployed_def)

lemma deployed_state:
  "run deploy_events (initial [] 1000) =
     \<lparr>store = [Some doc_deployed], files = files_deployed, clock = 5000, tasks = [Finished],
      responses = [Created 0]\<rparr>"
  unfolding deploy_events_def run_append deploying_state
  by (simp add: eval_defs doc0_def doc_deployed_def start_entry_def files_deployed_def)

lemma rolling_back_state:
  "run rolling_back_events (initial [] 1000) =
     \<lparr>store = [Some (doc_deployed\<lparr>status := RollingBack\<rparr>)], files = files_deployed, clock = 5000,
      tasks = [Finished, Finished, RollbackJobFindById 0],
      responses = [Created 0, RollbackInitiated 0]\<rparr>"
  unfolding rolling_back_events_def run_append deployed_state
  by (simp add: eval_defs doc0_def doc_deployed_def)

lemma sequential_state:
  "run sequential_events (initial [] 1000) =
     \<lparr>store = [Some (doc_deployed\<lparr>status := RollingBack\<rparr>)], files = files_deployed, clock = 5000,
      tasks = [Finished, Finished, RollbackJobFindById 0, Finished],
      responses = [Created 0, RollbackInitiated 0, NotFound ''No active deployment found for rollback'']\<rparr>"
  unfolding sequential_events_def run_append rolling_back_state
  by (simp add: eval_defs doc0_def doc_deployed_def)

lemma raced_state:
  "run race_events (initial [] 1000) =
     \<lparr>store = [Some (doc_deployed\<lparr>status := RollingBack\<rparr>)], files = files_deployed, clock = 5000,
      tasks = [Finished, Finished, Finished, RollbackJobFindById 0, RollbackJobFindById 0],
      responses = [Created 0, RollbackInitiated 0, RollbackInitiated 0]\<rparr>"
  unfolding race_events_def run_append deployed_state
  by (simp add: eval_defs doc0_def doc_deployed_def)

subsection \<open>What the cloud service calls return\<close>

lemma io_bind_Returns:
  assumes "io_bind m f fs = (Returns x, fs')"
  obtains y fs1 where "m fs = (Returns y, fs1)" and "f y fs1 = (Returns x, fs')"
  using assms by (auto simp: io_bind_def split: prod.splits outcome.splits)

lemma deploy_returns_success:
  assumes "deployInfrastructure e pid code prov fs = (Returns r, fs')"
  shows "success r"
proof -
  have "\<exists>outs plan apply. r = DeployResult True outs plan apply"
    using assms unfolding deployInfrastructure_def Let_def
    by (auto simp: io_catch_def io_throw_def io_return_def
        split: prod.splits outcome.splits elim!: io_bind_Returns)
  then show ?thesis by auto
qed

text \<open>\<open>deployInfrastructure\<close> returns only when apply and the output query have succeeded,
  and then with the outputs that \<open>JSON.parse\<close> read.\<close>

lemma deploy_returns_steps:
  assumes "deployInfrastructure e pid code prov fs = (Returns r, fs')"
  shows "\<exists>c out. execAsync e ''terraform apply -auto-approve tfplan'' (terraformPath @ [pid]) = Returns c
           \<and> execAsync e ''terraform output -json'' (terraformPath @ [pid]) = Returns out
           \<and> JSON_parse e out = Inr (result_outputs r)"
  using assms unfolding deployInfrastructure_def Let_def
  by (auto simp: io_catch_def io_throw_def io_return_def exec_io_def parse_io_def
      split: prod.splits outcome.splits sum.splits elim!: io_bind_Returns)

text \<open>The outcome of \<open>deployInfrastructure\<close> once the workspace is written and init and plan have run.\<close>

lemma deploy_after_plan:
  assumes "fs_fault e = (\<lambda>op p. None)"
    and "execAsync e ''terraform init'' (terraformPath @ [pid]) = Returns a"
    and "execAsync e ''terraform plan -out=tfplan'' (terraformPath @ [pid]) = Returns b"
  shows "\<exists>fs'. deployInfrastructure e pid code prov fs =
     (case execAsync e ''terraform apply -auto-approve tfplan'' (terraformPath @ [pid]) of
        Returns c \<Rightarrow>
          (case execAsync e ''terraform output -json'' (terraformPath @ [pid]) of
             Returns out \<Rightarrow>
               (case JSON_parse e out of
                  Inl msg \<Rightarrow> Throws (''Deployment failed: '' @ msg)
                | Inr v \<Rightarrow> Returns (DeployResult True v b c))
           | Throws msg \<Rightarrow> Throws (''Deployment failed: '' @ msg)
           | Hangs \<Rightarrow> Hangs)
      | Throws msg \<Rightarrow> Throws (''Deployment failed: '' @ msg)
      | Hangs \<Rightarrow> Hangs, fs')"
  using assms
  by (simp add: deployInfrastructure_def io_defs split: outcome.splits sum.splits)

text \<open>A failed validation reports a message; a validation touches nothing outside its temporary directory.\<close>

lemma validate_invalid_error:
  assumes "validateInfrastructure e code prov fs = (Returns v, fs')" and "\<not> valid v"
  shows "\<exists>msg. v_error v = Some msg"
  using assms
  by (auto simp: validateInfrastructure_def io_defs split: option.splits outcome.splits prod.splits)

lemma validate_files:
  assumes "validateInfrastructure e code prov fs = (r, fs')" and "p \<in> set fs'"
  shows "p \<in> set fs \<or> prefix (terraformPath @ [''temp-validation'']) p"
  using assms
  by (auto simp: validateInfrastructure_def io_defs split: option.splits outcome.splits prod.splits if_splits)

lemma validate_keeps:
  assumes "validateInfrastructure e code prov fs = (r, fs')" and "p \<in> set fs"
    and "\<not> prefix (terraformPath @ [''temp-validation'']) p"
  shows "p \<in> set fs'"
  using assms
  by (auto simp: validateInfrastructure_def io_defs split: option.splits outcome.splits prod.splits if_splits)

subsection \<open>The invariant holds in every reachable state\<close>

lemma list_all_update: "list_all P xs \<Longrightarrow> P x \<Longrightarrow> list_all P (xs[k := x])"
  unfolding list_all_iff using set_update_subset_insert [of xs k x] by auto

lemma findById_doc_ok: "list_all doc_ok st \<Longrightarrow> findById st i = Some d \<Longrightarrow> doc_ok (Some d)"
  by (auto simp: findById_def list_all_length split: if_splits)

lemma save_doc_ok:
  assumes "list_all doc_ok st" and "save st i f = Some st'"
    and "\<And>d. findById st i = Some d \<Longrightarrow> doc_ok (Some (f d))"
  shows "list_all doc_ok st'"
  using assms by (auto simp: save_def list_all_update split: option.splits)

lemma round_seconds_nonneg:
  "(0 \<le> Math_round_seconds (int c - int startTime)) = (startTime \<le> c + 500)"
  by (auto simp: Math_round_seconds_def pos_imp_zdiv_nonneg_iff)

lemma apply_update_ok: "doc_ok (Some (apply_update upd d))"
  by (cases upd) (auto simp: doc_ok_def deployed_fields_set_def)

lemma resume_inv:
  assumes "sys_inv s" and "resume e t s = (t', s')"
  shows "sys_inv s'"
proof -
  have docs: "list_all doc_ok (store s)" using assms(1) by (simp add: sys_inv_def)
  have saved: "list_all doc_ok st"
    if "save (store s) i f = Some st" and "\<And>d. doc_ok (Some d) \<Longrightarrow> doc_ok (Some (f d))" for i f st
    using save_doc_ok [OF docs that(1)] that(2) findById_doc_ok [OF docs] by blast
  show ?thesis
  proof (cases t)
    case (RollbackFindOne u pid)
    with assms show ?thesis
      by (auto simp: rollback_findOne_def respond_def sys_inv_def split: option.splits)
  next
    case (RollbackSave i)
    have "list_all doc_ok st" if "save (store s) i (\<lambda>d. d\<lparr>status := RollingBack\<rparr>) = Some st" for st
      using that by (rule saved) (simp add: doc_ok_def)
    with RollbackSave assms show ?thesis
      by (auto simp: rollback_save_def respond_def spawn_def sys_inv_def split: option.splits)
  next
    case (DeployFindById i)
    with assms show ?thesis
      by (auto simp: processDeployment_findById_def split: option.splits)
  next
    case (DeploySave i d startTime entry)
    have "list_all doc_ok st"
      if "save (store s) i (\<lambda>x. x\<lparr>status := Deploying, logs := logs x @ [entry]\<rparr>) = Some st" for st
      using that by (rule saved) (simp add: doc_ok_def)
    with DeploySave assms show ?thesis
      by (auto simp: processDeployment_save_def sys_inv_def split: option.splits)
  next
    case (DeployInfra i d startTime)
    with assms show ?thesis
      by (auto simp: processDeployment_deploy_def sys_inv_def Let_def
          split: prod.splits outcome.splits if_splits)
  next
    case (RollbackJobFindById i)
    with assms show ?thesis
      by (auto simp: processRollback_findById_def split: option.splits)
  next
    case (RollbackJobSave i d entry)
    have "list_all doc_ok st"
      if "save (store s) i (\<lambda>x. x\<lparr>logs := logs x @ [entry]\<rparr>) = Some st" for st
      using that by (rule saved) (simp add: doc_ok_def deployed_fields_set_def)
    with RollbackJobSave assms show ?thesis
      by (auto simp: processRollback_save_def sys_inv_def split: option.splits)
  next
    case (RollbackInfra i d)
    with assms show ?thesis
      by (auto simp: processRollback_destroy_def sys_inv_def
          split: prod.splits outcome.splits if_splits)
  next
    case (FinalSave i upd)
    have "list_all doc_ok st" if "save (store s) i (apply_update upd) = Some st" for st
      using that by (rule saved) (rule apply_update_ok)
    with FinalSave assms show ?thesis
      by (auto simp: final_save_def sys_inv_def split: option.splits)
  next
    case (Hung i)
    with assms show ?thesis by auto
  next
    case Finished
    with assms show ?thesis by auto
  qed
qed

lemma step_inv:
  assumes "sys_inv s"
  shows "sys_inv (step ev s)"
proof (cases ev)
  case (PostDeployment e u b oid)
  with assms show ?thesis
    by (auto simp: post_deployment_def respond_def spawn_def sys_inv_def doc_ok_def Let_def
        split: prod.splits outcome.splits)
next
  case (PostRollback u pid)
  with assms show ?thesis
    by (auto simp: post_rollback_def respond_def spawn_def sys_inv_def)
next
  case (DeleteDeployment u i)
  with assms show ?thesis
    by (auto simp: delete_deployment_def respond_def sys_inv_def doc_ok_def list_all_update
        split: option.splits)
next
  case (Resume k e)
  show ?thesis
  proof (cases "k < length (tasks s)")
    case False
    with Resume assms show ?thesis by simp
  next
    case True
    obtain t' s' where r: "resume e (tasks s ! k) s = (t', s')" by (cases "resume e (tasks s ! k) s")
    from resume_inv [OF assms r] have "sys_inv (s'\<lparr>tasks := (tasks s')[k := t']\<rparr>)"
      by (simp add: sys_inv_def)
    with Resume True r show ?thesis by simp
  qed
next
  case (Clock t)
  with assms show ?thesis by (simp add: sys_inv_def)
qed

lemma run_inv: "sys_inv s \<Longrightarrow> sys_inv (run evs s)"
  by (induction evs arbitrary: s) (auto simp: step_inv)

lemma initial_inv: "sys_inv (initial fs t)"
  by (simp add: sys_inv_def initial_def)

lemma deployed_has_fields:
  assumes "findById (store (run evs (initial fs t))) j = Some x" and "status x = Deployed"
  shows "deployedAt x \<noteq> None \<and> deploymentTime x \<noteq> None"
proof -
  have "sys_inv (run evs (initial fs t))" by (rule run_inv [OF initial_inv])
  then have "doc_ok (Some x)" using assms(1) by (auto simp: sys_inv_def dest: findById_doc_ok)
  with assms(2) show ?thesis
    by (auto simp: doc_ok_def deployed_fields_set_def split: option.splits)
qed

subsection \<open>The query of the rollback handler\<close>

lemma findOne_from_Some:
  "findOne_from n P xs = Some i \<Longrightarrow> n \<le> i \<and> i - n < length xs \<and> (\<exists>d. xs ! (i - n) = Some d \<and> P d)"
proof (induction xs arbitrary: n)
  case Nil
  then show ?case by simp
next
  case (Cons x xs)
  show ?case
  proof (cases "\<exists>d. x = Some d \<and> P d")
    case True
    with Cons.prems show ?thesis by auto
  next
    case False
    then have "findOne_from (Suc n) P xs = Some i"
      using Cons.prems by (auto split: option.splits if_splits)
    from Cons.IH [OF this] obtain d where
      ih: "Suc n \<le> i" "i - Suc n < length xs" "xs ! (i - Suc n) = Some d" "P d" by auto
    have "i - n = Suc (i - Suc n)" using ih(1) by simp
    with ih show ?thesis by auto
  qed
qed

lemma findOne_Some: "findOne P st = Some i \<Longrightarrow> \<exists>d. findById st i = Some d \<and> P d"
  using findOne_from_Some [of 0 P st i] by (auto simp: findOne_def findById_def)

text \<open>A rollback request whose query runs while the deployment is not in \<open>deployed\<close>
  (in particular while a job is active on it) does not select that deployment.\<close>

lemma rollback_skips_active:
  assumes "findById (store s) i = Some d" and "status d \<noteq> Deployed"
  shows "fst (rollback_findOne u pid s) \<noteq> RollbackSave i"
proof
  assume a: "fst (rollback_findOne u pid s) = RollbackSave i"
  then have "findOne (\<lambda>d. projectId d = pid \<and> userId d = u \<and> status d = Deployed) (store s) = Some i"
    by (auto simp: rollback_findOne_def split: option.splits)
  from findOne_Some [OF this] assms show False by auto
qed

subsection \<open>Only a deployment that has been deployed is rolled back\<close>

lemma evolves_refl: "evolves st st"
  by (auto simp: evolves_def split: option.splits)

lemma evolves_append: "evolves st (st @ [x])"
  by (auto simp: evolves_def nth_append split: option.splits)

lemma nth_update_cases: "j < length st \<Longrightarrow> st[i := x] ! j = (if i = j then x else st ! j)"
  by (cases "i < length st") (auto simp: nth_list_update)

lemma evolves_delete: "evolves st (st[i := None])"
  by (auto simp: evolves_def nth_update_cases split: option.splits)

lemma evolves_save:
  assumes "save st i f = Some st'" and "\<And>d. deployedAt d \<noteq> None \<Longrightarrow> deployedAt (f d) \<noteq> None"
  shows "evolves st st'"
  using assms
  by (fastforce simp: save_def findById_def evolves_def nth_update_cases split: option.splits if_splits)

lemma was_deployed_evolves: "was_deployed st i \<Longrightarrow> evolves st st' \<Longrightarrow> was_deployed st' i"
  by (fastforce simp: was_deployed_def evolves_def split: option.splits)

lemma rollback_task_ok_evolves:
  "rollback_task_ok st t \<Longrightarrow> evolves st st' \<Longrightarrow> rollback_task_ok st' t"
  by (induction st t rule: rollback_task_ok.induct) (auto intro: was_deployed_evolves)

lemma save_list_all:
  assumes "list_all Q st" and "save st i f = Some st'"
    and "\<And>d. findById st i = Some d \<Longrightarrow> Q (Some (f d))"
  shows "list_all Q st'"
  using assms by (auto simp: save_def list_all_update split: option.splits)

lemma was_deployed_doc:
  "was_deployed st i \<Longrightarrow> findById st i = Some d \<Longrightarrow> deployedAt d \<noteq> None"
  by (auto simp: was_deployed_def findById_def split: if_splits)

lemma apply_update_deployedAt: "deployedAt d \<noteq> None \<Longrightarrow> deployedAt (apply_update upd d) \<noteq> None"
  by (cases upd) auto

text \<open>One task step: the collection evolves, the successor task and every task started
  are in order, and so are the documents.\<close>

lemma resume_rollback_inv:
  assumes "rollback_inv s" and "rollback_task_ok (store s) t" and "resume e t s = (t', s')"
  shows "evolves (store s) (store s') \<and> rollback_task_ok (store s') t'
         \<and> list_all rollback_doc_ok (store s')
         \<and> (\<exists>new. tasks s' = tasks s @ new \<and> list_all (rollback_task_ok (store s')) new)"
proof -
  have docs: "list_all rollback_doc_ok (store s)" and inv: "sys_inv s"
    using assms(1) by (simp_all add: rollback_inv_def)
  have unchanged: ?thesis if "store s' = store s" "tasks s' = tasks s" "rollback_task_ok (store s) t'"
    using that docs by (simp add: evolves_refl)
  show ?thesis
  proof (cases t)
    case (RollbackFindOne u pid)
    show ?thesis
    proof (cases "findOne (\<lambda>d. projectId d = pid \<and> userId d = u \<and> status d = Deployed) (store s)")
      case None
      with RollbackFindOne assms(3) show ?thesis
        by (intro unchanged) (auto simp: rollback_findOne_def respond_def)
    next
      case (Some i)
      from findOne_Some [OF Some] obtain d where
        d: "findById (store s) i = Some d" "status d = Deployed" by auto
      have "doc_ok (Some d)" using inv d(1) by (auto simp: sys_inv_def dest: findById_doc_ok)
      then have "deployedAt d \<noteq> None" using d(2) by (simp add: doc_ok_def deployed_fields_set_def)
      then have "was_deployed (store s) i"
        using d(1) by (auto simp: was_deployed_def findById_def split: if_splits)
      with RollbackFindOne Some assms(3) show ?thesis
        by (intro unchanged) (auto simp: rollback_findOne_def)
    qed
  next
    case (RollbackSave i)
    have w: "was_deployed (store s) i" using assms(2) RollbackSave by simp
    show ?thesis
    proof (cases "save (store s) i (\<lambda>d. d\<lparr>status := RollingBack\<rparr>)")
      case None
      with RollbackSave assms(3) show ?thesis
        by (intro unchanged) (auto simp: rollback_save_def respond_def)
    next
      case (Some st)
      have ev: "evolves (store s) st" using Some by (rule evolves_save) simp
      have "list_all rollback_doc_ok st"
        using docs Some by (rule save_list_all) (use w in \<open>auto simp: rollback_doc_ok_def dest: was_deployed_doc\<close>)
      moreover have "was_deployed st i" using w ev by (rule was_deployed_evolves)
      ultimately show ?thesis
        using RollbackSave Some assms(3) ev
        by (auto simp: rollback_save_def respond_def spawn_def)
    qed
  next
    case (DeployFindById i)
    with assms(3) show ?thesis
      by (intro unchanged) (auto simp: processDeployment_findById_def split: option.splits)
  next
    case (DeploySave i d startTime entry)
    show ?thesis
    proof (cases "save (store s) i (\<lambda>x. x\<lparr>status := Deploying, logs := logs x @ [entry]\<rparr>)")
      case None
      with DeploySave assms(3) show ?thesis
        by (intro unchanged) (auto simp: processDeployment_save_def)
    next
      case (Some st)
      have ev: "evolves (store s) st" using Some by (rule evolves_save) simp
      have "list_all rollback_doc_ok st"
        using docs Some by (rule save_list_all) (simp add: rollback_doc_ok_def)
      then show ?thesis
        using DeploySave Some assms(3) ev by (auto simp: processDeployment_save_def)
    qed
  next
    case (DeployInfra i d startTime)
    with assms(3) show ?thesis
      by (intro unchanged)
        (auto simp: processDeployment_deploy_def Let_def split: prod.splits outcome.splits if_splits)
  next
    case (RollbackJobFindById i)
    with assms(2,3) show ?thesis
      by (intro unchanged) (auto simp: processRollback_findById_def split: option.splits)
  next
    case (RollbackJobSave i d entry)
    have w: "was_deployed (store s) i" using assms(2) RollbackJobSave by simp
    show ?thesis
    proof (cases "save (store s) i (\<lambda>x. x\<lparr>logs := logs x @ [entry]\<rparr>)")
      case None
      with RollbackJobSave assms(3) show ?thesis
        by (intro unchanged) (auto simp: processRollback_save_def)
    next
      case (Some st)
      have ev: "evolves (store s) st" using Some by (rule evolves_save) simp
      have "list_all rollback_doc_ok st"
        using docs Some
        by (rule save_list_all) (use docs in \<open>auto simp: rollback_doc_ok_def dest: was_deployed_doc [OF w]\<close>)
      moreover have "was_deployed st i" using w ev by (rule was_deployed_evolves)
      ultimately show ?thesis
        using RollbackJobSave Some assms(3) ev by (auto simp: processRollback_save_def)
    qed
  next
    case (RollbackInfra i d)
    with assms(2,3) show ?thesis
      by (intro unchanged)
        (auto simp: processRollback_destroy_def split: prod.splits outcome.splits if_splits)
  next
    case (FinalSave i upd)
    show ?thesis
    proof (cases "save (store s) i (apply_update upd)")
      case None
      with FinalSave assms(3) show ?thesis
        by (intro unchanged) (auto simp: final_save_def)
    next
      case (Some st)
      have ev: "evolves (store s) st"
        using Some by (rule evolves_save) (rule apply_update_deployedAt)
      have "rollback_doc_ok (Some (apply_update upd x))" if "findById (store s) i = Some x" for x
      proof (cases upd)
        case (SetRolledBack t entry)
        then have "was_deployed (store s) i" using assms(2) FinalSave by simp
        from was_deployed_doc [OF this that] SetRolledBack show ?thesis
          by (simp add: rollback_doc_ok_def)
      qed (simp_all add: rollback_doc_ok_def)
      with docs Some have "list_all rollback_doc_ok st" by (rule save_list_all)
      then show ?thesis
        using FinalSave Some assms(3) ev by (auto simp: final_save_def)
    qed
  next
    case (Hung i)
    with assms(3) show ?thesis by (intro unchanged) auto
  next
    case Finished
    with assms(3) show ?thesis by (intro unchanged) auto
  qed
qed

lemma tasks_evolve:
  "list_all (rollback_task_ok st) ts \<Longrightarrow> evolves st st' \<Longrightarrow> list_all (rollback_task_ok st') ts"
  by (auto simp: list_all_iff intro: rollback_task_ok_evolves)

lemma step_rollback_inv:
  assumes "rollback_inv s"
  shows "rollback_inv (step ev s)"
proof -
  have inv: "sys_inv (step ev s)" using assms by (simp add: rollback_inv_def step_inv)
  have ts: "list_all (rollback_task_ok (store s)) (tasks s)"
    and docs: "list_all rollback_doc_ok (store s)"
    using assms by (simp_all add: rollback_inv_def)
  have "list_all (rollback_task_ok (store (step ev s))) (tasks (step ev s))
        \<and> list_all rollback_doc_ok (store (step ev s))"
  proof (cases ev)
    case (PostDeployment e u b oid)
    have "list_all (rollback_task_ok (store s @ [x])) (tasks s)" for x
      using ts evolves_append by (rule tasks_evolve)
    with PostDeployment ts docs show ?thesis
      by (auto simp: post_deployment_def respond_def spawn_def Let_def rollback_doc_ok_def
          split: prod.splits outcome.splits)
  next
    case (PostRollback u pid)
    with ts docs show ?thesis
      by (auto simp: post_rollback_def respond_def spawn_def)
  next
    case (DeleteDeployment u i)
    have "list_all (rollback_task_ok ((store s)[i := None])) (tasks s)"
      using ts evolves_delete by (rule tasks_evolve)
    moreover have "list_all rollback_doc_ok ((store s)[i := None])"
      using docs by (rule list_all_update) (simp add: rollback_doc_ok_def)
    ultimately show ?thesis
      using DeleteDeployment ts docs
      by (auto simp: delete_deployment_def respond_def split: option.splits)
  next
    case (Resume k e)
    show ?thesis
    proof (cases "k < length (tasks s)")
      case False
      with Resume ts docs show ?thesis by simp
    next
      case True
      obtain t' s' where r: "resume e (tasks s ! k) s = (t', s')" by (cases "resume e (tasks s ! k) s")
      have ok: "rollback_task_ok (store s) (tasks s ! k)"
        using ts True by (simp add: list_all_length)
      from resume_rollback_inv [OF assms ok r] obtain new where
        ev: "evolves (store s) (store s')" and t': "rollback_task_ok (store s') t'"
        and d': "list_all rollback_doc_ok (store s')"
        and n: "tasks s' = tasks s @ new" "list_all (rollback_task_ok (store s')) new"
        by auto
      have "list_all (rollback_task_ok (store s')) (tasks s')"
        using tasks_evolve [OF ts ev] n by simp
      then have "list_all (rollback_task_ok (store s')) ((tasks s')[k := t'])"
        using t' by (rule list_all_update)
      with Resume True r d' show ?thesis by simp
    qed
  next
    case (Clock c)
    with ts docs show ?thesis by simp
  qed
  with inv show ?thesis by (simp add: rollback_inv_def)
qed

lemma run_rollback_inv: "rollback_inv s \<Longrightarrow> rollback_inv (run evs s)"
  by (induction evs arbitrary: s) (auto simp: step_rollback_inv)

text \<open>In every reachable state, whatever the interleaving, a deployment in \<open>rolling_back\<close>
  or \<open>rolled_back\<close> has been deployed before.\<close>

lemma rolled_back_was_deployed:
  assumes "findById (store (run evs (initial fs t))) j = Some x"
    and "status x = RollingBack \<or> status x = RolledBack"
  shows "deployedAt x \<noteq> None"
proof -
  have "rollback_inv (initial fs t)"
    by (simp add: rollback_inv_def initial_inv) (simp add: initial_def)
  then have "rollback_inv (run evs (initial fs t))" by (rule run_rollback_inv)
  then have "list_all rollback_doc_ok (store (run evs (initial fs t)))"
    by (simp add: rollback_inv_def)
  then have "rollback_doc_ok (Some x)"
    using assms(1) by (auto simp: findById_def list_all_length split: if_splits)
  with assms(2) show ?thesis by (auto simp: rollback_doc_ok_def)
qed

section \<open>The claims\<close>

text \<open>C1 (at most one active job per deployment id). Two rollback requests for the same
  project whose queries both run before either save: both find the deployment in
  \<open>deployed\<close>, both save \<open>rolling_back\<close>, both are answered with success, and two
  \<open>processRollback\<close> jobs are in flight for deployment 0. The check of the status and
  the write of the new status are two database operations with an \<open>await\<close> between.\<close>

theorem concurrent_rollbacks_both_accepted:
  "responses (run race_events (initial [] 1000))
     = [Created 0, RollbackInitiated 0, RollbackInitiated 0]
   \<and> active_jobs (run race_events (initial [] 1000)) 0 = 2
   \<and> status_of (run race_events (initial [] 1000)) 0 = Some RollingBack"
  by (simp add: raced_state active_jobs_def status_of_def findById_def)

text \<open>The same two requests one after the other: the second finds no deployment in
  \<open>deployed\<close> and is answered 404, so one job runs. In general a query that runs while
  the deployment is not in \<open>deployed\<close> does not select it (\<open>rollback_skips_active\<close>).\<close>

lemma sequential_rollbacks_one_accepted:
  "responses (run sequential_events (initial [] 1000))
     = [Created 0, RollbackInitiated 0, NotFound ''No active deployment found for rollback'']
   \<and> active_jobs (run sequential_events (initial [] 1000)) 0 = 1"
  by (simp add: sequential_state active_jobs_def)

text \<open>C2 (a description that fails validation), as stated: the outcome would be a record in
  status \<open>failed\<close> with an \<open>error\<close> log entry. The handler validates before it creates
  the record: on a failed validation the collection stays empty, no job is started and
  the diagnostic goes out in the 400 response.\<close>

theorem invalid_description_creates_no_record:
  "store (step (PostDeployment env_invalid 7 body0 ''507f191e810c19729de860ea'') (initial [] 1000)) = []
   \<and> tasks (step (PostDeployment env_invalid 7 body0 ''507f191e810c19729de860ea'') (initial [] 1000)) = []
   \<and> responses (step (PostDeployment env_invalid 7 body0 ''507f191e810c19729de860ea'') (initial [] 1000))
       = [BadRequest ''Invalid Terraform configuration'' (Some ''Command failed: terraform validate'')]"
  by (simp add: env_invalid_def eval_defs)

text \<open>C2, amended: a submission whose description fails validation is answered 400
  \<open>Invalid Terraform configuration\<close> with the diagnostic as details; the collection and
  the tasks are unchanged (no record, no log entry, no job), and no project workspace
  directory is created or removed.\<close>

theorem post_deployment_rejects_invalid:
  assumes "body_terraformCode b \<noteq> []" and "body_provider b \<noteq> []"
    and "validateInfrastructure e (body_terraformCode b) (body_provider b) (files s) = (Returns v, fs)"
    and "\<not> valid v"
  shows "step (PostDeployment e u b oid) s
           = s\<lparr>files := fs,
               responses := responses s @ [BadRequest ''Invalid Terraform configuration'' (v_error v)]\<rparr>
         \<and> (\<exists>msg. v_error v = Some msg)
         \<and> (\<forall>pid. pid \<noteq> ''temp-validation'' \<longrightarrow>
               pathExists fs (terraformPath @ [pid]) = pathExists (files s) (terraformPath @ [pid]))"
proof -
  have a: "step (PostDeployment e u b oid) s
           = s\<lparr>files := fs,
               responses := responses s @ [BadRequest ''Invalid Terraform configuration'' (v_error v)]\<rparr>"
    using assms by (simp add: post_deployment_def respond_def)
  have b: "\<exists>msg. v_error v = Some msg"
    using validate_invalid_error [OF assms(3) assms(4)] .
  have c: "pathExists fs (terraformPath @ [pid]) = pathExists (files s) (terraformPath @ [pid])"
    if "pid \<noteq> ''temp-validation''" for pid
  proof -
    have np: "\<not> prefix (terraformPath @ [''temp-validation'']) (terraformPath @ [pid])"
      using that by simp
    show ?thesis
      unfolding pathExists_def
      using validate_files [OF assms(3)] validate_keeps [OF assms(3) _ np] np by blast
  qed
  show ?thesis using a b c by blast
qed

text \<open>The amended C2 at the failing validation of \<open>env_invalid\<close>.\<close>

theorem post_deployment_rejects_invalid_witness:
  "body_terraformCode body0 \<noteq> [] \<and> body_provider body0 \<noteq> []
   \<and> validateInfrastructure env_invalid (body_terraformCode body0) (body_provider body0)
         (files (initial [] 1000))
       = (Returns (Validation False None (Some ''Command failed: terraform validate'')),
          [[''terraform'', ''temp-validation'', ''providers.tf''],
           [''terraform'', ''temp-validation'', ''main.tf''],
           [''terraform'', ''temp-validation'']])
   \<and> step (PostDeployment env_invalid 7 body0 ''507f191e810c19729de860ea'') (initial [] 1000)
       = \<lparr>store = [],
          files = [[''terraform'', ''temp-validation'', ''providers.tf''],
                   [''terraform'', ''temp-validation'', ''main.tf''],
                   [''terraform'', ''temp-validation'']],
          clock = 1000, tasks = [],
          responses = [BadRequest ''Invalid Terraform configuration''
                         (Some ''Command failed: terraform validate'')]\<rparr>
   \<and> pathExists (files (step (PostDeployment env_invalid 7 body0 ''507f191e810c19729de860ea'') (initial [] 1000)))
         (terraformPath @ [''507f1f77bcf86cd799439011'']) = False"
proof -
  have v: "validateInfrastructure env_invalid (body_terraformCode body0) (body_provider body0)
             (files (initial [] 1000))
           = (Returns (Validation False None (Some ''Command failed: terraform validate'')),
              [[''terraform'', ''temp-validation'', ''providers.tf''],
               [''terraform'', ''temp-validation'', ''main.tf''],
               [''terraform'', ''temp-validation'']])"
    by (simp add: env_invalid_def eval_defs)
  have n: "body_terraformCode body0 \<noteq> []" "body_provider body0 \<noteq> []"
    by (simp_all add: body0_def)
  have nv: "\<not> valid (Validation False None (Some ''Command failed: terraform validate''))"
    by simp
  from post_deployment_rejects_invalid [OF n v nv, of 7 "''507f191e810c19729de860ea''"] v n
  show ?thesis
    by (simp add: initial_def pathExists_def terraformPath_def)
qed

text \<open>C3 (the transition deploying \<rightarrow> deployed), as stated: \<open>deploymentTime\<close> would
  never be negative, and every deployment whose apply succeeds would take the
  transition. \<open>deploymentTime\<close> is the rounded difference of two readings of the wall
  clock: here the clock is set back by two seconds while the job waits, and the
  deployment ends in \<open>deployed\<close> with \<open>deploymentTime\<close> -2. And when apply succeeds but
  the output cannot be parsed, the deployment ends in \<open>failed\<close> with \<open>deployedAt\<close> and
  \<open>deploymentTime\<close> unset.\<close>

theorem clock_set_back_negative_deploymentTime:
  "status_of (run clock_back_events (initial [] 1000)) 0 = Some Deployed
   \<and> map_option deploymentTime (findById (store (run clock_back_events (initial [] 1000))) 0)
       = Some (Some (- 2))
   \<and> map_option deployedAt (findById (store (run clock_back_events (initial [] 1000))) 0)
       = Some (Some 3000)
   \<and> execAsync env_unparsable ''terraform apply -auto-approve tfplan''
         (terraformPath @ [''507f1f77bcf86cd799439011'']) = Returns ''ok''
   \<and> status_of (snd (processDeployment env_unparsable 0
         (step (PostDeployment env_ok 7 body0 ''507f191e810c19729de860ea'') (initial [] 1000)))) 0
       = Some Failed
   \<and> map_option (\<lambda>d. (deployedAt d, deploymentTime d))
         (findById (store (snd (processDeployment env_unparsable 0
           (step (PostDeployment env_ok 7 body0 ''507f191e810c19729de860ea'') (initial [] 1000))))) 0)
       = Some (None, None)"
proof -
  have a: "findById (store (run clock_back_events (initial [] 1000))) 0
      = Some (doc0\<lparr>status := Deployed,
          logs := [\<lparr>message = ''Starting deployment process...'', ltype = Info, timestamp = 5000\<rparr>,
                   \<lparr>message = ''Deployment completed successfully'', ltype = Success, timestamp = 3000\<rparr>],
          costEstimate := Some mock_estimate, deploymentTime := Some (- 2), deployedAt := Some 3000\<rparr>)"
    by (simp add: clock_back_events_def eval_defs doc0_def)
  have b: "store (snd (processDeployment env_unparsable 0
         (step (PostDeployment env_ok 7 body0 ''507f191e810c19729de860ea'') (initial [] 1000))))
       = [Some (doc0\<lparr>status := Failed,
            logs := [\<lparr>message = ''Starting deployment process...'', ltype = Info, timestamp = 1000\<rparr>,
                     \<lparr>message = ''Deployment failed: Deployment failed: Unexpected token'',
                      ltype = Error, timestamp = 1000\<rparr>]\<rparr>)]"
    unfolding created_state
    by (simp add: env_unparsable_def processDeployment_def run_job_def eval_defs doc0_def)
  show ?thesis
    unfolding status_of_def a b
    by (simp add: findById_def doc0_def env_unparsable_def env_with_def env_ok_def)
qed

text \<open>C3, amended. When \<open>deployInfrastructure\<close> returns, that is when init, plan, apply and
  the output query succeed and the output parses, the job prepares the update that sets
  \<open>outputs\<close> to the parsed outputs, \<open>deployedAt\<close> to the current reading of the clock and
  \<open>deploymentTime\<close> to the rounded seconds between \<open>startTime\<close> and that reading, and
  pushes a \<open>success\<close> log entry; its last save writes exactly these fields with status
  \<open>deployed\<close>. \<open>deploymentTime\<close> is not negative exactly when the clock reads no less than
  \<open>startTime\<close> minus half a second. In every state the event loop reaches from an empty
  collection, a document in \<open>deployed\<close> has \<open>deployedAt\<close> and \<open>deploymentTime\<close> set
  (\<open>outputs\<close> is never absent: the schema gives it the default \<open>{}\<close>).\<close>

theorem deployed_sets_fields:
  assumes "deployInfrastructure e (projectId d) (terraformCode d) (provider d) (files s) = (Returns r, fs)"
    and "findById (store s') i = Some d'"
  shows "processDeployment_deploy e i d startTime s
           = (FinalSave i
                (SetDeployed (result_outputs r) (clock s)
                   (Math_round_seconds (int (clock s) - int startTime))
                   (Some (if pathExists fs (terraformPath @ [projectId d]) then mock_estimate
                          else EstimateError ''Project not found''))
                   (log_now s ''Deployment completed successfully'' Success)),
              s\<lparr>files := fs\<rparr>)
         \<and> (\<exists>c out.
               execAsync e ''terraform apply -auto-approve tfplan'' (terraformPath @ [projectId d])
                 = Returns c
               \<and> execAsync e ''terraform output -json'' (terraformPath @ [projectId d]) = Returns out
               \<and> JSON_parse e out = Inr (result_outputs r))
         \<and> (0 \<le> Math_round_seconds (int (clock s) - int startTime)) = (startTime \<le> clock s + 500)
         \<and> final_save i
              (SetDeployed (result_outputs r) (clock s)
                 (Math_round_seconds (int (clock s) - int startTime))
                 (Some (if pathExists fs (terraformPath @ [projectId d]) then mock_estimate
                        else EstimateError ''Project not found''))
                 (log_now s ''Deployment completed successfully'' Success)) s'
             = (Finished,
                s'\<lparr>store := (store s')[i := Some (d'\<lparr>status := Deployed,
                     outputs := result_outputs r,
                     deployedAt := Some (clock s),
                     deploymentTime := Some (Math_round_seconds (int (clock s) - int startTime)),
                     logs := logs d' @ [log_now s ''Deployment completed successfully'' Success],
                     costEstimate := Some (if pathExists fs (terraformPath @ [projectId d])
                       then mock_estimate else EstimateError ''Project not found'')\<rparr>)]\<rparr>)
         \<and> (\<forall>evs fs0 t0 j x.
               findById (store (run evs (initial fs0 t0))) j = Some x \<and> status x = Deployed \<longrightarrow>
               deployedAt x \<noteq> None \<and> deploymentTime x \<noteq> None)"
proof -
  have ok: "success r" using assms(1) by (rule deploy_returns_success)
  have ce: "getCostEstimate e (projectId d) fs
      = (Returns (if pathExists fs (terraformPath @ [projectId d]) then mock_estimate
                  else EstimateError ''Project not found''), fs)"
    by (simp add: getCostEstimate_def io_defs)
  have a: "processDeployment_deploy e i d startTime s
           = (FinalSave i
                (SetDeployed (result_outputs r) (clock s)
                   (Math_round_seconds (int (clock s) - int startTime))
                   (Some (if pathExists fs (terraformPath @ [projectId d]) then mock_estimate
                          else EstimateError ''Project not found''))
                   (log_now s ''Deployment completed successfully'' Success)),
              s\<lparr>files := fs\<rparr>)"
    using assms(1) ok ce by (simp add: processDeployment_deploy_def Let_def)
  have b: "(0 \<le> Math_round_seconds (int (clock s) - int startTime)) = (startTime \<le> clock s + 500)"
    by (rule round_seconds_nonneg)
  have c: "final_save i
              (SetDeployed (result_outputs r) (clock s)
                 (Math_round_seconds (int (clock s) - int startTime))
                 (Some (if pathExists fs (terraformPath @ [projectId d]) then mock_estimate
                        else EstimateError ''Project not found''))
                 (log_now s ''Deployment completed successfully'' Success)) s'
             = (Finished,
                s'\<lparr>store := (store s')[i := Some (d'\<lparr>status := Deployed,
                     outputs := result_outputs r,
                     deployedAt := Some (clock s),
                     deploymentTime := Some (Math_round_seconds (int (clock s) - int startTime)),
                     logs := logs d' @ [log_now s ''Deployment completed successfully'' Success],
                     costEstimate := Some (if pathExists fs (terraformPath @ [projectId d])
                       then mock_estimate else EstimateError ''Project not found'')\<rparr>)]\<rparr>)"
    using assms(2) by (simp add: final_save_def save_found)
  have d: "\<forall>evs fs0 t0 j x.
               findById (store (run evs (initial fs0 t0))) j = Some x \<and> status x = Deployed \<longrightarrow>
               deployedAt x \<noteq> None \<and> deploymentTime x \<noteq> None"
    using deployed_has_fields by blast
  have p: "\<exists>c out.
               execAsync e ''terraform apply -auto-approve tfplan'' (terraformPath @ [projectId d])
                 = Returns c
               \<and> execAsync e ''terraform output -json'' (terraformPath @ [projectId d]) = Returns out
               \<and> JSON_parse e out = Inr (result_outputs r)"
    using assms(1) by (rule deploy_returns_steps)
  show ?thesis using a p b c d by blast
qed

text \<open>The amended C3 at the deployment of \<open>deploy_events\<close>: 2400 ms after \<open>startTime\<close>,
  2 seconds.\<close>

theorem deployed_sets_fields_witness:
  "deployInfrastructure env_ok (projectId doc0) (terraformCode doc0) (provider doc0)
       (files (run (deploying_events @ [Clock 5000]) (initial [] 1000)))
     = (Returns (DeployResult True (JObject []) ''ok'' ''ok''), files_deployed)
   \<and> findById (store (run (deploying_events @ [Clock 5000]) (initial [] 1000))) 0
       = Some (doc0\<lparr>status := Deploying, logs := [start_entry]\<rparr>)
   \<and> fst (processDeployment_deploy env_ok 0 doc0 2600
         (run (deploying_events @ [Clock 5000]) (initial [] 1000)))
       = FinalSave 0 (SetDeployed (JObject []) 5000 2 (Some mock_estimate)
           \<lparr>message = ''Deployment completed successfully'', ltype = Success, timestamp = 5000\<rparr>)
   \<and> store (snd (final_save 0 (SetDeployed (JObject []) 5000 2 (Some mock_estimate)
           \<lparr>message = ''Deployment completed successfully'', ltype = Success, timestamp = 5000\<rparr>)
         (run (deploying_events @ [Clock 5000]) (initial [] 1000))))
       = [Some doc_deployed]
   \<and> JSON_parse env_ok ''{}'' = Inr (JObject [])
   \<and> findById (store (run deploy_events (initial [] 1000))) 0 = Some doc_deployed
   \<and> status doc_deployed = Deployed
   \<and> deployedAt doc_deployed = Some 5000
   \<and> deploymentTime doc_deployed = Some 2"
proof -
  have h1: "deployInfrastructure env_ok (projectId doc0) (terraformCode doc0) (provider doc0)
       (files (run (deploying_events @ [Clock 5000]) (initial [] 1000)))
     = (Returns (DeployResult True (JObject []) ''ok'' ''ok''), files_deployed)"
    unfolding late_state using deploy_ok by (simp add: doc0_def)
  have h3: "findById (store (run (deploying_events @ [Clock 5000]) (initial [] 1000))) 0
       = Some (doc0\<lparr>status := Deploying, logs := [start_entry]\<rparr>)"
    unfolding late_state by (simp add: findById_def)
  have h4: "findById (store (run deploy_events (initial [] 1000))) 0 = Some doc_deployed"
    "status doc_deployed = Deployed"
    unfolding deployed_state by (simp_all add: findById_def doc_deployed_def)
  from deployed_sets_fields [OF h1 h3, where startTime = 2600] h1 h3 h4 show ?thesis
    unfolding late_state
    by (simp add: Math_round_seconds_def log_now_def pathExists_def terraformPath_def
        files_deployed_def doc_deployed_def doc0_def start_entry_def env_ok_def)
qed

text \<open>C4 (\<open>rolled_back\<close> is entered from \<open>rolling_back\<close> only). The two jobs of the run of
  C1 go on side by side: the destroy of one fails and its last save writes \<open>failed\<close>;
  the destroy of the other succeeds and its last save writes \<open>rolled_back\<close>. The
  statuses deployment 0 goes through end with \<open>failed\<close> followed by \<open>rolled_back\<close>.
  The rest of the claim holds in every run: a deployment in \<open>rolling_back\<close> or
  \<open>rolled_back\<close> has been deployed (\<open>rolled_back_was_deployed\<close>).\<close>

theorem rolled_back_directly_after_failed:
  "status_history race_jobs_events (initial [] 1000) 0
     = [None, Some Pending, Some Deploying, Some Deployed, Some RollingBack, Some Failed,
        Some RolledBack]"
  by (simp add: status_history_def race_jobs_events_def race_events_def deploy_events_def
      deploying_events_def status_of_def eval_defs)

text \<open>C5 (an output that cannot be parsed), as stated: the deployment would still become
  \<open>deployed\<close>. Here apply succeeds and \<open>terraform output -json\<close> prints text that
  \<open>JSON.parse\<close> rejects: the job ends with the deployment in \<open>failed\<close>.\<close>

theorem unparsable_output_fails_deployment:
  "execAsync env_unparsable ''terraform apply -auto-approve tfplan'' (terraformPath @ [''507f1f77bcf86cd799439011'']) = Returns ''ok''
   \<and> fst (processDeployment env_unparsable 0 (step (PostDeployment env_ok 7 body0 ''507f191e810c19729de860ea'') (initial [] 1000)))
       = Finished
   \<and> store (snd (processDeployment env_unparsable 0
         (step (PostDeployment env_ok 7 body0 ''507f191e810c19729de860ea'') (initial [] 1000))))
       = [Some (doc0\<lparr>status := Failed,
            logs := [\<lparr>message = ''Starting deployment process...'', ltype = Info, timestamp = 1000\<rparr>,
                     \<lparr>message = ''Deployment failed: Deployment failed: Unexpected token'',
                      ltype = Error, timestamp = 1000\<rparr>]\<rparr>)]"
  unfolding created_state
  by (simp add: env_unparsable_def processDeployment_def run_job_def eval_defs doc0_def)

text \<open>C5, amended: when init, plan and apply succeed and the text the output query prints
  cannot be parsed, the parse error is a failure: the job finishes with the deployment
  in \<open>failed\<close>, an \<open>error\<close> log entry carrying the parse error, and \<open>outputs\<close> and
  every other field as before.\<close>

theorem output_parse_failure_is_failure:
  assumes "findById (store s) i = Some d"
    and "fs_fault e = (\<lambda>op p. None)"
    and "execAsync e ''terraform init'' (terraformPath @ [projectId d]) = Returns a"
    and "execAsync e ''terraform plan -out=tfplan'' (terraformPath @ [projectId d]) = Returns b"
    and "execAsync e ''terraform apply -auto-approve tfplan'' (terraformPath @ [projectId d]) = Returns c"
    and "execAsync e ''terraform output -json'' (terraformPath @ [projectId d]) = Returns out"
    and "JSON_parse e out = Inl msg"
  shows "fst (processDeployment e i s) = Finished
         \<and> findById (store (snd (processDeployment e i s))) i
             = Some (d\<lparr>status := Failed,
                  logs := logs d @ [log_now s ''Starting deployment process...'' Info,
                    log_now s (''Deployment failed: Deployment failed: '' @ msg) Error]\<rparr>)"
proof -
  have i: "i < length (store s)" using assms(1) by (rule findById_length)
  obtain fs' where "deployInfrastructure e (projectId d) (terraformCode d) (provider d) (files s)
      = (Throws (''Deployment failed: '' @ msg), fs')"
    using deploy_after_plan [OF assms(2,3,4), of "terraformCode d" "provider d" "files s"] assms(5,6,7)
    by auto
  then show ?thesis
    using assms(1) i
    by (simp add: processDeployment_def run_job_def job_defs save_found findById_update_same)
qed

text \<open>The amended C5 at the backend \<open>env_unparsable\<close>.\<close>

theorem output_parse_failure_is_failure_witness:
  "findById (store (step (PostDeployment env_ok 7 body0 ''507f191e810c19729de860ea'') (initial [] 1000))) 0 = Some doc0
   \<and> fs_fault env_unparsable = (\<lambda>op p. None)
   \<and> execAsync env_unparsable ''terraform init'' (terraformPath @ [projectId doc0]) = Returns ''ok''
   \<and> execAsync env_unparsable ''terraform plan -out=tfplan'' (terraformPath @ [projectId doc0]) = Returns ''ok''
   \<and> execAsync env_unparsable ''terraform apply -auto-approve tfplan'' (terraformPath @ [projectId doc0])
       = Returns ''ok''
   \<and> execAsync env_unparsable ''terraform output -json'' (terraformPath @ [projectId doc0]) = Returns ''oops''
   \<and> JSON_parse env_unparsable ''oops'' = Inl ''Unexpected token''
   \<and> findById (store (snd (processDeployment env_unparsable 0
         (step (PostDeployment env_ok 7 body0 ''507f191e810c19729de860ea'') (initial [] 1000))))) 0
       = Some (doc0\<lparr>status := Failed,
            logs := [\<lparr>message = ''Starting deployment process...'', ltype = Info, timestamp = 1000\<rparr>,
                     \<lparr>message = ''Deployment failed: Deployment failed: Unexpected token'',
                      ltype = Error, timestamp = 1000\<rparr>]\<rparr>)"
proof -
  have h: "findById (store (step (PostDeployment env_ok 7 body0 ''507f191e810c19729de860ea'') (initial [] 1000))) 0 = Some doc0"
    "fs_fault env_unparsable = (\<lambda>op p. None)"
    "execAsync env_unparsable ''terraform init'' (terraformPath @ [projectId doc0]) = Returns ''ok''"
    "execAsync env_unparsable ''terraform plan -out=tfplan'' (terraformPath @ [projectId doc0]) = Returns ''ok''"
    "execAsync env_unparsable ''terraform apply -auto-approve tfplan'' (terraformPath @ [projectId doc0])
       = Returns ''ok''"
    "execAsync env_unparsable ''terraform output -json'' (terraformPath @ [projectId doc0]) = Returns ''oops''"
    "JSON_parse env_unparsable ''oops'' = Inl ''Unexpected token''"
    unfolding created_state
    by (simp_all add: findById_def env_unparsable_def env_with_def env_ok_def)
  from output_parse_failure_is_failure [OF h] h show ?thesis
    unfolding created_state by (simp add: log_now_def doc0_def)
qed

text \<open>C6 (delete while a job is active), as stated: the delete would be rejected. Here the
  deployment is in \<open>deploying\<close> with its job in flight; the delete is answered with
  success and the document is gone.\<close>

theorem delete_while_deploying:
  "status_of (run deploying_events (initial [] 1000)) 0 = Some Deploying
   \<and> active_jobs (run deploying_events (initial [] 1000)) 0 = 1
   \<and> status_of (step (DeleteDeployment 7 0) (run deploying_events (initial [] 1000))) 0 = None
   \<and> responses (step (DeleteDeployment 7 0) (run deploying_events (initial [] 1000)))
       = [Created 0, Deleted]"
  by (simp add: deploying_state status_of_def active_jobs_def findById_def delete_deployment_def
      respond_def doc0_def)

text \<open>C6, amended: delete looks at the id and the owner only. A document of the requesting
  user is removed whatever its status, active jobs included; the request is answered 404,
  with the collection unchanged, only when the user has no document with that id.\<close>

theorem delete_ignores_status:
  "(findById (store s) i = Some d \<and> userId d = u \<longrightarrow>
      step (DeleteDeployment u i) s
        = s\<lparr>store := (store s)[i := None], responses := responses s @ [Deleted]\<rparr>
      \<and> findById (store (step (DeleteDeployment u i) s)) i = None)
   \<and> ((\<forall>x. findById (store s) i = Some x \<longrightarrow> userId x \<noteq> u) \<longrightarrow>
      step (DeleteDeployment u i) s
        = s\<lparr>responses := responses s @ [NotFound ''Deployment not found'']\<rparr>)"
  by (auto simp: delete_deployment_def respond_def findById_update_same findById_length
      split: option.splits)

text \<open>The amended C6 at the deployment in \<open>deploying\<close>, and at an id that does not exist.\<close>

theorem delete_ignores_status_witness:
  "findById (store (run deploying_events (initial [] 1000))) 0
     = Some (doc0\<lparr>status := Deploying,
         logs := [\<lparr>message = ''Starting deployment process...'', ltype = Info, timestamp = 2600\<rparr>]\<rparr>)
   \<and> userId (doc0\<lparr>status := Deploying,
         logs := [\<lparr>message = ''Starting deployment process...'', ltype = Info, timestamp = 2600\<rparr>]\<rparr>) = 7
   \<and> store (step (DeleteDeployment 7 0) (run deploying_events (initial [] 1000))) = [None]
   \<and> findById (store (step (DeleteDeployment 7 0) (run deploying_events (initial [] 1000)))) 0 = None
   \<and> findById (store (run deploying_events (initial [] 1000))) 1 = None
   \<and> step (DeleteDeployment 7 1) (run deploying_events (initial [] 1000))
       = (run deploying_events (initial [] 1000))
           \<lparr>responses := [Created 0, NotFound ''Deployment not found'']\<rparr>"
  using delete_ignores_status [of "run deploying_events (initial [] 1000)" 0
      "doc0\<lparr>status := Deploying,
         logs := [\<lparr>message = ''Starting deployment process...'', ltype = Info, timestamp = 2600\<rparr>]\<rparr>" 7]
    delete_ignores_status [of "run deploying_events (initial [] 1000)" 1 doc0 7]
  by (simp add: deploying_state findById_def doc0_def)

text \<open>C7 (a rollback whose destroy fails leaves \<open>failed\<close> with \<open>rolledBackAt\<close> unset). In
  the run of C4 the destroy of job 4 fails and the job writes \<open>failed\<close> with its \<open>error\<close>
  entry; job 3, started by the other accepted request, then writes \<open>rolled_back\<close> and
  \<open>rolledBackAt\<close>: the deployment ends in \<open>rolled_back\<close>. In the other order job 3 ends
  first and the failing job 4 last: the deployment ends in \<open>failed\<close> with \<open>rolledBackAt\<close>
  set. Each job writes its own final status and never reads the stored one.\<close>

theorem failed_destroy_beside_second_job:
  "status_of (run race_jobs_events (initial [] 1000)) 0 = Some RolledBack
   \<and> map_option rolledBackAt (findById (store (run race_jobs_events (initial [] 1000))) 0)
       = Some (Some 5000)
   \<and> map_option (\<lambda>d. map message (drop 4 (logs d)))
         (findById (store (run race_jobs_events (initial [] 1000))) 0)
       = Some [''Rollback failed: Rollback failed: Error acquiring the state lock'',
               ''Rollback completed successfully'']
   \<and> status_of (run race_jobs_events_rev (initial [] 1000)) 0 = Some Failed
   \<and> map_option rolledBackAt (findById (store (run race_jobs_events_rev (initial [] 1000))) 0)
       = Some (Some 5000)
   \<and> map_option (\<lambda>d. map message (drop 4 (logs d)))
         (findById (store (run race_jobs_events_rev (initial [] 1000))) 0)
       = Some [''Rollback completed successfully'',
               ''Rollback failed: Rollback failed: Error acquiring the state lock'']"
  unfolding race_jobs_events_def race_jobs_events_rev_def run_append raced_state
  by (simp add: status_of_def eval_defs doc_deployed_def doc0_def start_entry_def files_deployed_def)

text \<open>A rollback job that runs alone, with no second job on the deployment: when the
  workspace exists and \<open>terraform destroy\<close> fails with \<open>reason\<close>, the job finishes with the
  deployment in \<open>failed\<close>, the log extended by the start entry and an \<open>error\<close> entry
  carrying \<open>reason\<close>, and \<open>rolledBackAt\<close> as it was.\<close>

lemma lone_rollback_destroy_failure:
  assumes "findById (store s) i = Some d"
    and "pathExists (files s) (terraformPath @ [projectId d])"
    and "execAsync e ''terraform destroy -auto-approve'' (terraformPath @ [projectId d]) = Throws reason"
  shows "processRollback e i s =
           (Finished,
            s\<lparr>store := (store s)[i := Some (d\<lparr>status := Failed,
                 logs := logs d @ [log_now s ''Starting rollback process...'' Info,
                                   log_now s (''Rollback failed: Rollback failed: '' @ reason) Error]\<rparr>)]\<rparr>)
         \<and> status_of (snd (processRollback e i s)) i = Some Failed
         \<and> map_option rolledBackAt (findById (store (snd (processRollback e i s))) i)
             = Some (rolledBackAt d)"
proof -
  have i: "i < length (store s)" using assms(1) by (rule findById_length)
  have r: "rollbackDeployment e (projectId d) (files s)
             = (Throws (''Rollback failed: '' @ reason), files s)"
    using assms(2,3) by (simp add: rollbackDeployment_def io_defs)
  have "processRollback e i s =
           (Finished,
            s\<lparr>store := (store s)[i := Some (d\<lparr>status := Failed,
                 logs := logs d @ [log_now s ''Starting rollback process...'' Info,
                                   log_now s (''Rollback failed: Rollback failed: '' @ reason) Error]\<rparr>)]\<rparr>)"
    using assms(1) i r
    by (simp add: processRollback_def run_job_def job_defs save_found findById_update_same)
  then show ?thesis using i by (simp add: status_of_def findById_update_same)
qed

text \<open>C8 (the validation workspace is released whatever the outcome). When
  \<open>terraform validate\<close> fails, the \<open>catch\<close> returns without calling \<open>cleanupDirectory\<close>:
  the temporary directory and the two files written into it are still there. After a
  successful validation they are removed.\<close>

theorem validate_failure_keeps_temp_dir:
  "validateInfrastructure env_invalid ''resource'' ''aws'' []
     = (Returns (Validation False None (Some ''Command failed: terraform validate'')),
        [[''terraform'', ''temp-validation'', ''providers.tf''],
         [''terraform'', ''temp-validation'', ''main.tf''],
         [''terraform'', ''temp-validation'']])
   \<and> pathExists (snd (validateInfrastructure env_invalid ''resource'' ''aws'' []))
        (terraformPath @ [''temp-validation''])
   \<and> validateInfrastructure env_ok ''resource'' ''aws'' []
     = (Returns (Validation True (Some ''Terraform configuration is valid'') None), [])"
  by (simp add: env_invalid_def eval_defs)

text \<open>C9 (an apply that exceeds the timeout), as stated: the job would be terminated and the
  deployment would become \<open>failed\<close>. The subprocess is started without a timeout. Here
  the apply never exits: an hour later the job is still suspended and the deployment is
  still in \<open>deploying\<close>.\<close>

theorem hanging_apply_stays_deploying:
  "status_of (run hang_events (initial [] 1000)) 0 = Some Deploying
   \<and> tasks (run hang_events (initial [] 1000)) = [Hung 0]
   \<and> clock (run hang_events (initial [] 1000)) = 3602600"
  unfolding hang_events_def run_append deploying_state
  by (simp add: env_apply_hangs_def status_of_def eval_defs doc0_def)

text \<open>C9, amended: no timeout bounds the apply. While the subprocess has not exited the job
  stays suspended, for ever if it never exits, with the deployment in \<open>deploying\<close>;
  when the subprocess fails, the job finishes with the deployment in \<open>failed\<close> and an
  \<open>error\<close> log entry carrying the message of the failure.\<close>

theorem apply_has_no_timeout:
  assumes "findById (store s) i = Some d"
    and "fs_fault e = (\<lambda>op p. None)"
    and "execAsync e ''terraform init'' (terraformPath @ [projectId d]) = Returns a"
    and "execAsync e ''terraform plan -out=tfplan'' (terraformPath @ [projectId d]) = Returns b"
  shows "(execAsync e ''terraform apply -auto-approve tfplan'' (terraformPath @ [projectId d]) = Hangs \<longrightarrow>
            fst (processDeployment e i s) = Hung i
            \<and> status_of (snd (processDeployment e i s)) i = Some Deploying
            \<and> (\<forall>e' s'. resume e' (Hung i) s' = (Hung i, s')))
         \<and> (\<forall>msg. execAsync e ''terraform apply -auto-approve tfplan'' (terraformPath @ [projectId d])
                    = Throws msg \<longrightarrow>
            fst (processDeployment e i s) = Finished
            \<and> findById (store (snd (processDeployment e i s))) i
                = Some (d\<lparr>status := Failed,
                     logs := logs d @ [log_now s ''Starting deployment process...'' Info,
                       log_now s (''Deployment failed: Deployment failed: '' @ msg) Error]\<rparr>))"
proof -
  have i: "i < length (store s)" using assms(1) by (rule findById_length)
  obtain fs' where d: "deployInfrastructure e (projectId d) (terraformCode d) (provider d) (files s) =
     (case execAsync e ''terraform apply -auto-approve tfplan'' (terraformPath @ [projectId d]) of
        Returns c \<Rightarrow>
          (case execAsync e ''terraform output -json'' (terraformPath @ [projectId d]) of
             Returns out \<Rightarrow>
               (case JSON_parse e out of
                  Inl msg \<Rightarrow> Throws (''Deployment failed: '' @ msg)
                | Inr v \<Rightarrow> Returns (DeployResult True v b c))
           | Throws msg \<Rightarrow> Throws (''Deployment failed: '' @ msg)
           | Hangs \<Rightarrow> Hangs)
      | Throws msg \<Rightarrow> Throws (''Deployment failed: '' @ msg)
      | Hangs \<Rightarrow> Hangs, fs')"
    using deploy_after_plan [OF assms(2,3,4), of "terraformCode d" "provider d" "files s"] by auto
  show ?thesis
    using assms(1) i d
    by (simp add: processDeployment_def run_job_def job_defs save_found findById_update_same
        status_of_def)
qed

text \<open>The amended C9 at an apply that hangs and at one that fails.\<close>

theorem apply_has_no_timeout_witness:
  "findById (store (step (PostDeployment env_ok 7 body0 ''507f191e810c19729de860ea'') (initial [] 1000))) 0 = Some doc0
   \<and> fs_fault env_apply_hangs = (\<lambda>op p. None)
   \<and> execAsync env_apply_hangs ''terraform init'' (terraformPath @ [projectId doc0]) = Returns ''ok''
   \<and> execAsync env_apply_hangs ''terraform plan -out=tfplan'' (terraformPath @ [projectId doc0]) = Returns ''ok''
   \<and> execAsync env_apply_hangs ''terraform apply -auto-approve tfplan'' (terraformPath @ [projectId doc0]) = Hangs
   \<and> fst (processDeployment env_apply_hangs 0 (step (PostDeployment env_ok 7 body0 ''507f191e810c19729de860ea'') (initial [] 1000)))
       = Hung 0
   \<and> status_of (snd (processDeployment env_apply_hangs 0
         (step (PostDeployment env_ok 7 body0 ''507f191e810c19729de860ea'') (initial [] 1000)))) 0 = Some Deploying
   \<and> fs_fault env_apply_fails = (\<lambda>op p. None)
   \<and> execAsync env_apply_fails ''terraform init'' (terraformPath @ [projectId doc0]) = Returns ''ok''
   \<and> execAsync env_apply_fails ''terraform plan -out=tfplan'' (terraformPath @ [projectId doc0]) = Returns ''ok''
   \<and> execAsync env_apply_fails ''terraform apply -auto-approve tfplan'' (terraformPath @ [projectId doc0])
       = Throws ''Command failed: terraform apply -auto-approve tfplan''
   \<and> status_of (snd (processDeployment env_apply_fails 0
         (step (PostDeployment env_ok 7 body0 ''507f191e810c19729de860ea'') (initial [] 1000)))) 0 = Some Failed"
proof -
  have f: "findById (store (step (PostDeployment env_ok 7 body0 ''507f191e810c19729de860ea'') (initial [] 1000))) 0 = Some doc0"
    unfolding created_state by (simp add: findById_def)
  have h: "fs_fault env_apply_hangs = (\<lambda>op p. None)"
    "execAsync env_apply_hangs ''terraform init'' (terraformPath @ [projectId doc0]) = Returns ''ok''"
    "execAsync env_apply_hangs ''terraform plan -out=tfplan'' (terraformPath @ [projectId doc0]) = Returns ''ok''"
    by (simp_all add: env_apply_hangs_def env_with_def env_ok_def)
  have h': "execAsync env_apply_hangs ''terraform apply -auto-approve tfplan'' (terraformPath @ [projectId doc0])
      = Hangs"
    by (simp add: env_apply_hangs_def env_with_def env_ok_def)
  have g: "fs_fault env_apply_fails = (\<lambda>op p. None)"
    "execAsync env_apply_fails ''terraform init'' (terraformPath @ [projectId doc0]) = Returns ''ok''"
    "execAsync env_apply_fails ''terraform plan -out=tfplan'' (terraformPath @ [projectId doc0]) = Returns ''ok''"
    by (simp_all add: env_apply_fails_def env_with_def env_ok_def)
  have g': "execAsync env_apply_fails ''terraform apply -auto-approve tfplan'' (terraformPath @ [projectId doc0])
      = Throws ''Command failed: terraform apply -auto-approve tfplan''"
    by (simp add: env_apply_fails_def env_with_def env_ok_def)
  from apply_has_no_timeout [OF f h] apply_has_no_timeout [OF f g] f h h' g g'
  show ?thesis by (simp add: status_of_def)
qed

text \<open>C10 (the cost estimate). When the project's workspace path exists the result is the
  fixed estimate, whatever the backend and the rest of the file system; when it does
  not, the result is the error object \<open>Project not found\<close>. The call never throws.\<close>

theorem getCostEstimate_fixed:
  "getCostEstimate e pid fs =
     (Returns (if pathExists fs (terraformPath @ [pid])
               then Estimate ''$150.00''
                      [(''EC2 Instances'', ''$80.00''), (''RDS Database'', ''$40.00''),
                       (''S3 Storage'', ''$20.00''), (''Load Balancer'', ''$10.00'')] ''USD''
               else EstimateError ''Project not found''), fs)"
  by (simp add: getCostEstimate_def io_defs mock_estimate_def)

end
